theory Spec2Isabelle
  imports Main "HOL-Library.Sublist"
begin

section \<open>The Streamlit front-end \<open>frontend.py\<close>\<close>

text \<open>
  The front-end is one script that Streamlit runs from top to bottom each time the user
  touches a widget. What survives from one run to the next is \<open>session_state\<close> and the
  working directory. A run is modelled as a function from the widget values of that run
  (\<open>inputs\<close>), the behaviour of the two imported managers during that run (\<open>env\<close>) and
  the surviving \<open>world\<close> to the new world, the list of things the run did (\<open>ev\<close>) and the
  exception that ended the run, if one escaped.

  Strings are byte strings: a character outside ASCII is written as its UTF-8 bytes.
  \<open>time.sleep\<close> is left out. The calls into Streamlit and the write of the uploaded file
  are taken to return normally.
\<close>

subsection \<open>Exceptions\<close>

text \<open>
  An exception is known by the first handler clause it matches and by its text
  \<open>str(e)\<close>. \<open>BaseException_only\<close> stands for the exceptions that are not instances of
  \<open>Exception\<close> (\<open>SystemExit\<close>, \<open>KeyboardInterrupt\<close>, \<open>GeneratorExit\<close>), which no
  \<open>except Exception\<close> clause catches.
\<close>

datatype exn_class =
    FileNotFoundError | ValueError | ConnectionError | KeyError | Other_Exception
  | BaseException_only

record exn =
  exn_class :: exn_class
  exn_text :: string

definition isinstance_Exception :: "exn \<Rightarrow> bool" where
  "isinstance_Exception e = (exn_class e \<noteq> BaseException_only)"

subsection \<open>Session state, files and the managers\<close>

text \<open>A chat turn is the dict literal \<open>{"role": r, "content": c}\<close>, in insertion order.\<close>

type_synonym pydict = "(string \<times> string) list"

text \<open>
  Modelled from the spec: the class \<open>ChatbotManager\<close> comes from the module \<open>bot\<close>,
  which is not among the sources. The spec calls the stored value an optional reference
  to an initialized chat manager: an instance is known by its identity, and a stored
  instance is truthy, as an object of a class without \<open>__bool__\<close> and \<open>__len__\<close> is.
\<close>

type_synonym mgr = nat

record app_state =
  temp_pdf_path :: "string option"
  chatbot_manager :: "mgr option"
  messages :: "pydict list"

type_synonym session_state = "string \<rightharpoonup> app_state"

record world =
  session_state :: session_state
  files :: "string \<rightharpoonup> string"

text \<open>
  The modules \<open>embeddings\<close> and \<open>bot\<close> are not among the sources, so what their two
  classes do during one run is a parameter of the run: a constructor raises or returns,
  \<open>create_embeddings\<close> maps the path to an exception or a result, \<open>get_response\<close> maps
  the instance and the question to an exception or an answer.
\<close>

record env =
  EmbeddingsManager_init :: "exn option"
  EmbeddingsManager_create_embeddings :: "string \<Rightarrow> exn + string"
  ChatbotManager_init :: "exn + mgr"
  ChatbotManager_get_response :: "mgr \<Rightarrow> string \<Rightarrow> exn + string"

record uploaded =
  file_name :: string
  file_size :: nat
  file_buffer :: string

text \<open>The widget values of one run: the select box, the uploader, the check box, the chat box.\<close>

record inputs =
  choice :: string
  uploaded_file :: "uploaded option"
  create_embeddings :: bool
  user_input :: "string option"

text \<open>
  What a run does, in order: the elements it renders and the calls it makes into the two
  classes. Fixed wording is not kept: a title stands for the fixed content of its page,
  \<open>Success_uploaded\<close> for the three lines 119-121 with the file's name and size.
\<close>

datatype ev =
    Sidebar
  | Title_home
  | Title_chatbot
  | Title_contact
  | Header_upload
  | Success_uploaded string nat
  | Pdf_preview string
  | Header_embeddings
  | Warning_upload_first
  | Init_EmbeddingsManager
  | Call_create_embeddings string
  | Success string
  | Init_ChatbotManager
  | Error string
  | Header_chat
  | Info_create_embeddings_first
  | Chat_message string string
  | Call_get_response mgr string
  | Footer

subsection \<open>Constants of the script\<close>

definition label_home :: string where
  "label_home = [CHR 0xF0, CHR 0x9F, CHR 0x8F, CHR 0xA0] @ '' Home''"

definition label_chatbot :: string where
  "label_chatbot = [CHR 0xF0, CHR 0x9F, CHR 0xA4, CHR 0x96] @ '' Chatbot''"

definition label_contact :: string where
  "label_contact = [CHR 0xF0, CHR 0x9F, CHR 0x93, CHR 0xA7] @ '' Contact''"

definition menu :: "string list" where
  "menu = [label_home, label_chatbot, label_contact]"

definition doc_pdf :: string where
  "doc_pdf = ''doc.pdf''"

definition unexpected_prefix :: string where
  "unexpected_prefix = ''An unexpected error occurred: ''"

definition chat_error_prefix :: string where
  "chat_error_prefix =
     [CHR 0xE2, CHR 0x9A, CHR 0xA0, CHR 0xEF, CHR 0xB8, CHR 0x8F]
       @ '' An error occurred while processing your request: ''"

definition empty_state :: app_state where
  "empty_state = \<lparr>temp_pdf_path = None, chatbot_manager = None, messages = []\<rparr>"

definition turn :: "string \<Rightarrow> string \<Rightarrow> pydict" where
  "turn r c = [(''role'', r), (''content'', c)]"

subsection \<open>Helper functions (lines 22-65)\<close>

text \<open>
  \<open>display_pdf\<close> reads the file and renders it in a frame; the base64 text of the frame
  is not kept. The two initialisers call the constructors with the fixed values of
  \<open>CONFIG\<close>; what a constructor does with them is part of \<open>env\<close>.
\<close>

definition display_pdf :: "uploaded \<Rightarrow> ev list" where [simp]:
  "display_pdf file = [Pdf_preview (file_buffer file)]"

definition initialize_embeddings_manager :: "env \<Rightarrow> exn option" where [simp]:
  "initialize_embeddings_manager en = EmbeddingsManager_init en"

definition initialize_chatbot_manager :: "env \<Rightarrow> exn + mgr" where [simp]:
  "initialize_chatbot_manager en = ChatbotManager_init en"

subsection \<open>Session state initialisation (lines 69-74)\<close>

definition init_session_state :: "session_state \<Rightarrow> session_state" where
  "init_session_state ss =
     (case ss ''state'' of
        None \<Rightarrow> ss(''state'' \<mapsto> empty_state)
      | Some _ \<Rightarrow> ss)"

subsection \<open>Column 1: upload (lines 115-131)\<close>

text \<open>
  An uploaded file object is truthy. The preview reads it and the save writes its whole
  buffer to the fixed path.
\<close>

definition column1 ::
  "inputs \<Rightarrow> app_state \<Rightarrow> (string \<rightharpoonup> string) \<Rightarrow> app_state \<times> (string \<rightharpoonup> string) \<times> ev list"
where
  "column1 inp st fs =
     (case uploaded_file inp of
        None \<Rightarrow> (st, fs, [Header_upload])
      | Some f \<Rightarrow>
          (st\<lparr>temp_pdf_path := Some doc_pdf\<rparr>,
           fs(doc_pdf \<mapsto> file_buffer f),
           [Header_upload, Success_uploaded (file_name f) (file_size f)] @ display_pdf f))"

subsection \<open>Column 2: embeddings (lines 134-158)\<close>

text \<open>
  The body of the \<open>try\<close>: the state, what was done until the body ended, and the
  exception that ended it. The only assignment is the last statement.
\<close>

definition create_embeddings_try ::
  "env \<Rightarrow> string \<Rightarrow> app_state \<Rightarrow> app_state \<times> ev list \<times> exn option"
where
  "create_embeddings_try en p st =
     (case initialize_embeddings_manager en of
        Some e \<Rightarrow> (st, [Init_EmbeddingsManager], Some e)
      | None \<Rightarrow>
          (case EmbeddingsManager_create_embeddings en p of
             Inl e \<Rightarrow> (st, [Init_EmbeddingsManager, Call_create_embeddings p], Some e)
           | Inr result \<Rightarrow>
               (case chatbot_manager st of
                  Some m \<Rightarrow>
                    (st, [Init_EmbeddingsManager, Call_create_embeddings p, Success result],
                     None)
                | None \<Rightarrow>
                    (case initialize_chatbot_manager en of
                       Inl e \<Rightarrow>
                         (st, [Init_EmbeddingsManager, Call_create_embeddings p,
                               Success result, Init_ChatbotManager], Some e)
                     | Inr m \<Rightarrow>
                         (st\<lparr>chatbot_manager := Some m\<rparr>,
                          [Init_EmbeddingsManager, Call_create_embeddings p,
                           Success result, Init_ChatbotManager], None)))))"

text \<open>The four \<open>except\<close> clauses, tried in order; an exception none matches goes on.\<close>

definition create_embeddings_except :: "exn \<Rightarrow> ev list \<times> exn option" where
  "create_embeddings_except e =
     (if exn_class e = FileNotFoundError then ([Error (exn_text e)], None)
      else if exn_class e = ValueError then ([Error (exn_text e)], None)
      else if exn_class e = ConnectionError then ([Error (exn_text e)], None)
      else if isinstance_Exception e then ([Error (unexpected_prefix @ exn_text e)], None)
      else ([], Some e))"

definition column2 :: "env \<Rightarrow> inputs \<Rightarrow> app_state \<Rightarrow> app_state \<times> ev list \<times> exn option" where
  "column2 en inp st =
     (if \<not> create_embeddings inp then (st, [Header_embeddings], None)
      else
        (case temp_pdf_path st of
           None \<Rightarrow> (st, [Header_embeddings, Warning_upload_first], None)
         | Some p \<Rightarrow>
             if p = [] then (st, [Header_embeddings, Warning_upload_first], None)
             else
               (case create_embeddings_try en p st of
                  (st', evs, None) \<Rightarrow> (st', Header_embeddings # evs, None)
                | (st', evs, Some e) \<Rightarrow>
                    (case create_embeddings_except e of
                       (evs', x) \<Rightarrow> (st', Header_embeddings # evs @ evs', x)))))"

subsection \<open>Column 3: chat (lines 161-182)\<close>

text \<open>
  The loop over the stored turns; a turn without a key raises \<open>KeyError\<close>, whose
  text is the key in single quotes.
\<close>

definition key_error :: "string \<Rightarrow> exn" where
  "key_error k = \<lparr>exn_class = KeyError, exn_text = [CHR 0x27] @ k @ [CHR 0x27]\<rparr>"

fun render_messages :: "pydict list \<Rightarrow> ev list \<times> exn option" where
  "render_messages [] = ([], None)"
| "render_messages (msg # rest) =
     (case map_of msg ''role'' of
        None \<Rightarrow> ([], Some (key_error ''role''))
      | Some r \<Rightarrow>
          (case map_of msg ''content'' of
             None \<Rightarrow> ([], Some (key_error ''content''))
           | Some c \<Rightarrow>
               (case render_messages rest of
                  (evs, x) \<Rightarrow> (Chat_message r c # evs, x))))"

text \<open>Lines 171-182, run when the chat box returned a non-empty string.\<close>

definition send_message ::
  "env \<Rightarrow> mgr \<Rightarrow> string \<Rightarrow> app_state \<Rightarrow> app_state \<times> ev list \<times> exn option"
where
  "send_message en m q st =
     (let st1 = st\<lparr>messages := messages st @ [turn ''user'' q]\<rparr> in
      case ChatbotManager_get_response en m q of
        Inr answer \<Rightarrow>
          (st1\<lparr>messages := messages st1 @ [turn ''assistant'' answer]\<rparr>,
           [Chat_message ''user'' q, Call_get_response m q, Chat_message ''assistant'' answer],
           None)
      | Inl e \<Rightarrow>
          if isinstance_Exception e then
            (let answer = chat_error_prefix @ exn_text e in
             (st1\<lparr>messages := messages st1 @ [turn ''assistant'' answer]\<rparr>,
              [Chat_message ''user'' q, Call_get_response m q,
               Chat_message ''assistant'' answer],
              None))
          else (st1, [Chat_message ''user'' q, Call_get_response m q], Some e))"

definition column3 :: "env \<Rightarrow> inputs \<Rightarrow> app_state \<Rightarrow> app_state \<times> ev list \<times> exn option" where
  "column3 en inp st =
     (case chatbot_manager st of
        None \<Rightarrow> (st, [Header_chat, Info_create_embeddings_first], None)
      | Some m \<Rightarrow>
          (case render_messages (messages st) of
             (evs, Some e) \<Rightarrow> (st, Header_chat # evs, Some e)
           | (evs, None) \<Rightarrow>
               (case user_input inp of
                  None \<Rightarrow> (st, Header_chat # evs, None)
                | Some q \<Rightarrow>
                    if q = [] then (st, Header_chat # evs, None)
                    else
                      (case send_message en m q st of
                         (st', evs', x) \<Rightarrow> (st', Header_chat # evs @ evs', x)))))"

subsection \<open>The pages and the script\<close>

definition chatbot_page ::
  "env \<Rightarrow> inputs \<Rightarrow> app_state \<Rightarrow> (string \<rightharpoonup> string)
     \<Rightarrow> app_state \<times> (string \<rightharpoonup> string) \<times> ev list \<times> exn option"
where
  "chatbot_page en inp st fs =
     (case column1 inp st fs of
        (st1, fs1, evs1) \<Rightarrow>
          (case column2 en inp st1 of
             (st2, evs2, Some e) \<Rightarrow> (st2, fs1, Title_chatbot # evs1 @ evs2, Some e)
           | (st2, evs2, None) \<Rightarrow>
               (case column3 en inp st2 of
                  (st3, evs3, x) \<Rightarrow> (st3, fs1, Title_chatbot # evs1 @ evs2 @ evs3, x))))"

text \<open>
  One run of the script. The footer is reached only when no exception escaped. Only the
  Chatbot page reads \<open>session_state['state']\<close>; the key is there after the
  initialisation, so the \<open>KeyError\<close> branch of the lookup is never taken.
\<close>

definition script :: "env \<Rightarrow> inputs \<Rightarrow> world \<Rightarrow> world \<times> ev list \<times> exn option" where
  "script en inp w =
     (let ss = init_session_state (session_state w) in
      if choice inp = label_home then
        (w\<lparr>session_state := ss\<rparr>, [Sidebar, Title_home, Footer], None)
      else if choice inp = label_chatbot then
        (case ss ''state'' of
           None \<Rightarrow>
             (w\<lparr>session_state := ss\<rparr>, [Sidebar, Title_chatbot],
              Some (key_error ''state''))
         | Some st \<Rightarrow>
             (case chatbot_page en inp st (files w) of
                (st', fs', evs, None) \<Rightarrow>
                  (\<lparr>session_state = ss(''state'' \<mapsto> st'), files = fs'\<rparr>,
                   Sidebar # evs @ [Footer], None)
              | (st', fs', evs, Some e) \<Rightarrow>
                  (\<lparr>session_state = ss(''state'' \<mapsto> st'), files = fs'\<rparr>,
                   Sidebar # evs, Some e)))
      else if choice inp = label_contact then
        (w\<lparr>session_state := ss\<rparr>, [Sidebar, Title_contact, Footer], None)
      else (w\<lparr>session_state := ss\<rparr>, [Sidebar, Footer], None))"

text \<open>
  A session is a sequence of runs from a world whose \<open>session_state\<close> is empty. A run
  that ends in an escaped exception ends that run only; the next one starts from the
  world it left.
\<close>

definition new_session :: "(string \<rightharpoonup> string) \<Rightarrow> world" where
  "new_session fs = \<lparr>session_state = Map.empty, files = fs\<rparr>"

fun session :: "(env \<times> inputs) list \<Rightarrow> world \<Rightarrow> world \<times> ev list" where
  "session [] w = (w, [])"
| "session ((en, inp) # runs) w =
     (case script en inp w of
        (w', evs, x) \<Rightarrow>
          (case session runs w' of
             (w'', evs') \<Rightarrow> (w'', evs @ evs')))"

subsection \<open>Observations on runs\<close>

text \<open>The number of runs of a session that take the branch of line 69.\<close>

fun initialisations :: "(env \<times> inputs) list \<Rightarrow> world \<Rightarrow> nat" where
  "initialisations [] w = 0"
| "initialisations ((en, inp) # runs) w =
     (if session_state w ''state'' = None then 1 else 0)
       + initialisations runs (fst (script en inp w))"

text \<open>The titles of the three pages.\<close>

fun is_page_title :: "ev \<Rightarrow> bool" where
  "is_page_title Title_home = True"
| "is_page_title Title_chatbot = True"
| "is_page_title Title_contact = True"
| "is_page_title _ = False"

text \<open>The arguments of the manager calls of a run, in order.\<close>

fun create_embeddings_args :: "ev list \<Rightarrow> string list" where
  "create_embeddings_args [] = []"
| "create_embeddings_args (Call_create_embeddings p # evs) = p # create_embeddings_args evs"
| "create_embeddings_args (_ # evs) = create_embeddings_args evs"

fun get_response_args :: "ev list \<Rightarrow> (mgr \<times> string) list" where
  "get_response_args [] = []"
| "get_response_args (Call_get_response m q # evs) = (m, q) # get_response_args evs"
| "get_response_args (_ # evs) = get_response_args evs"

text \<open>The results that line 146 rendered.\<close>

fun rendered_results :: "ev list \<Rightarrow> string list" where
  "rendered_results [] = []"
| "rendered_results (Success r # evs) = r # rendered_results evs"
| "rendered_results (_ # evs) = rendered_results evs"

text \<open>
  The order of a trace: \<open>up\<close> says that an upload was saved, \<open>emb\<close> that a call of
  \<open>create_embeddings\<close> returned (line 146 rendered its result). A call of
  \<open>create_embeddings\<close> needs \<open>up\<close>, a call of \<open>get_response\<close> needs \<open>emb\<close>.
\<close>

fun gated :: "bool \<Rightarrow> bool \<Rightarrow> ev list \<Rightarrow> bool" where
  "gated up emb [] = True"
| "gated up emb (Success_uploaded n s # evs) = gated True emb evs"
| "gated up emb (Call_create_embeddings p # evs) = (up \<and> gated up emb evs)"
| "gated up emb (Success r # evs) = gated up True evs"
| "gated up emb (Call_get_response m q # evs) = (emb \<and> gated up emb evs)"
| "gated up emb (_ # evs) = gated up emb evs"

fun uploaded_in :: "ev list \<Rightarrow> bool" where
  "uploaded_in [] = False"
| "uploaded_in (Success_uploaded n s # evs) = True"
| "uploaded_in (_ # evs) = uploaded_in evs"

fun embedded_in :: "ev list \<Rightarrow> bool" where
  "embedded_in [] = False"
| "embedded_in (Success r # evs) = True"
| "embedded_in (_ # evs) = embedded_in evs"

text \<open>A well-formed chat turn: the keys \<open>role\<close> and \<open>content\<close>, the role one of two.\<close>

definition wf_turn :: "pydict \<Rightarrow> bool" where
  "wf_turn d =
     (map fst d = [''role'', ''content'']
      \<and> (map_of d ''role'' = Some ''user'' \<or> map_of d ''role'' = Some ''assistant''))"

subsection \<open>Sample inputs\<close>

definition env_ok :: env where
  "env_ok =
     \<lparr>EmbeddingsManager_init = None,
      EmbeddingsManager_create_embeddings = (\<lambda>p. Inr (''indexed '' @ p)),
      ChatbotManager_init = Inr 1,
      ChatbotManager_get_response = (\<lambda>m q. Inr (''re: '' @ q))\<rparr>"

text \<open>Both manager methods raise the given exception; the constructors return.\<close>

definition env_raising :: "exn \<Rightarrow> env" where
  "env_raising e =
     \<lparr>EmbeddingsManager_init = None,
      EmbeddingsManager_create_embeddings = (\<lambda>p. Inl e),
      ChatbotManager_init = Inr 2,
      ChatbotManager_get_response = (\<lambda>m q. Inl e)\<rparr>"

definition timeout_error :: exn where
  "timeout_error = \<lparr>exn_class = Other_Exception, exn_text = ''timed out''\<rparr>"

definition system_exit :: exn where
  "system_exit = \<lparr>exn_class = BaseException_only, exn_text = ''''\<rparr>"

definition sample_pdf :: uploaded where
  "sample_pdf = \<lparr>file_name = ''a.pdf'', file_size = 3, file_buffer = ''abc''\<rparr>"

definition other_pdf :: uploaded where
  "other_pdf = \<lparr>file_name = ''b.pdf'', file_size = 2, file_buffer = ''xy''\<rparr>"

definition visit :: "string \<Rightarrow> inputs" where
  "visit c = \<lparr>choice = c, uploaded_file = None, create_embeddings = False, user_input = None\<rparr>"

definition upload_and_embed :: "uploaded \<Rightarrow> inputs" where
  "upload_and_embed f =
     \<lparr>choice = label_chatbot, uploaded_file = Some f, create_embeddings = True,
      user_input = None\<rparr>"

definition ask :: "string \<Rightarrow> inputs" where
  "ask q =
     \<lparr>choice = label_chatbot, uploaded_file = None, create_embeddings = False,
      user_input = Some q\<rparr>"

definition ready_state :: app_state where
  "ready_state =
     \<lparr>temp_pdf_path = Some doc_pdf, chatbot_manager = Some 1,
      messages = [turn ''user'' ''hi'', turn ''assistant'' ''hello'']\<rparr>"

definition ready_world :: world where
  "ready_world =
     \<lparr>session_state = [''state'' \<mapsto> ready_state], files = [doc_pdf \<mapsto> ''abc'']\<rparr>"

section \<open>Properties\<close>

subsection \<open>Shared lemmas\<close>

lemma labels_distinct:
  "label_home \<noteq> label_chatbot" "label_home \<noteq> label_contact"
  "label_chatbot \<noteq> label_contact" "label_chatbot \<noteq> label_home"
  "label_contact \<noteq> label_home" "label_contact \<noteq> label_chatbot"
  by (simp_all add: label_home_def label_chatbot_def label_contact_def)

lemma init_session_state_present:
  "\<exists>st. init_session_state ss ''state'' = Some st"
  by (simp add: init_session_state_def split: option.split)

lemma init_session_state_keep:
  "ss ''state'' = Some st \<Longrightarrow> init_session_state ss = ss"
  by (simp add: init_session_state_def)

lemma init_session_state_fresh:
  "ss ''state'' = None \<Longrightarrow> init_session_state ss = ss(''state'' \<mapsto> empty_state)"
  by (simp add: init_session_state_def)

lemma column1_frame:
  "column1 inp st fs = (st', fs', evs) \<Longrightarrow>
     chatbot_manager st' = chatbot_manager st \<and> messages st' = messages st"
  by (auto simp: column1_def split: option.splits)

lemma column1_path:
  "column1 inp st fs = (st', fs', evs) \<Longrightarrow>
     temp_pdf_path st' = (if uploaded_file inp = None then temp_pdf_path st else Some doc_pdf)"
  by (auto simp: column1_def split: option.splits)

lemma create_embeddings_try_frame:
  "create_embeddings_try en p st = (st', evs, x) \<Longrightarrow>
     temp_pdf_path st' = temp_pdf_path st \<and> messages st' = messages st"
  by (auto simp: create_embeddings_try_def split: option.splits sum.splits)

lemma create_embeddings_try_manager:
  "create_embeddings_try en p st = (st', evs, x) \<Longrightarrow> chatbot_manager st = Some m \<Longrightarrow>
     st' = st \<and> Init_ChatbotManager \<notin> set evs"
  by (auto simp: create_embeddings_try_def split: option.splits sum.splits)

lemma column2_frame:
  "column2 en inp st = (st', evs, x) \<Longrightarrow>
     temp_pdf_path st' = temp_pdf_path st \<and> messages st' = messages st"
  by (auto simp: column2_def split: option.splits sum.splits if_splits prod.splits
      dest: create_embeddings_try_frame)

lemma column2_manager:
  assumes "column2 en inp st = (st', evs, x)" and "chatbot_manager st = Some m"
  shows "st' = st \<and> Init_ChatbotManager \<notin> set evs"
proof (cases "create_embeddings inp \<and> temp_pdf_path st \<noteq> None \<and> temp_pdf_path st \<noteq> Some []")
  case False
  with assms(1) show ?thesis
    by (auto simp: column2_def split: option.splits if_splits)
next
  case True
  then obtain p where p: "temp_pdf_path st = Some p" "p \<noteq> []" "create_embeddings inp"
    by auto
  obtain st1 evs1 x1 where t: "create_embeddings_try en p st = (st1, evs1, x1)"
    by (cases "create_embeddings_try en p st") auto
  from create_embeddings_try_manager[OF t assms(2)]
  have k: "st1 = st" "Init_ChatbotManager \<notin> set evs1" by auto
  from assms(1) p t k show ?thesis
    by (auto simp: column2_def create_embeddings_except_def split: option.splits if_splits)
qed

lemma send_message_frame:
  "send_message en m q st = (st', evs, x) \<Longrightarrow>
     temp_pdf_path st' = temp_pdf_path st \<and> chatbot_manager st' = chatbot_manager st"
  by (auto simp: send_message_def Let_def split: sum.splits if_splits)

lemma column3_frame:
  "column3 en inp st = (st', evs, x) \<Longrightarrow>
     temp_pdf_path st' = temp_pdf_path st \<and> chatbot_manager st' = chatbot_manager st"
  by (auto simp: column3_def split: option.splits if_splits prod.splits
      dest: send_message_frame)

lemma chatbot_page_cases:
  assumes "chatbot_page en inp st fs = (st', fs', evs, x)"
  obtains st1 evs1 st2 evs2 x2 evs3 where
    "column1 inp st fs = (st1, fs', evs1)"
    "column2 en inp st1 = (st2, evs2, x2)"
    "(x2 \<noteq> None \<and> st' = st2 \<and> evs3 = [] \<and> x = x2)
       \<or> (x2 = None \<and> column3 en inp st2 = (st', evs3, x))"
    "evs = Title_chatbot # evs1 @ evs2 @ evs3"
proof -
  obtain st1 fs1 evs1 where c1: "column1 inp st fs = (st1, fs1, evs1)"
    by (cases "column1 inp st fs") auto
  obtain st2 evs2 x2 where c2: "column2 en inp st1 = (st2, evs2, x2)"
    by (cases "column2 en inp st1") auto
  obtain st3 evs3 x3 where c3: "column3 en inp st2 = (st3, evs3, x3)"
    by (cases "column3 en inp st2") auto
  show thesis
  proof (cases x2)
    case None
    with assms c1 c2 c3 that[of st1 evs1 st2 evs2 x2 evs3] show thesis
      by (simp add: chatbot_page_def)
  next
    case (Some e)
    with assms c1 c2 that[of st1 evs1 st2 evs2 x2 "[]"] show thesis
      by (auto simp add: chatbot_page_def)
  qed
qed

lemma script_other_page:
  "choice inp \<noteq> label_chatbot \<Longrightarrow>
     fst (script en inp w) = w\<lparr>session_state := init_session_state (session_state w)\<rparr>"
  by (simp add: script_def Let_def)

lemma script_chatbot_page:
  assumes "choice inp = label_chatbot" and "session_state w ''state'' = Some st"
    and "chatbot_page en inp st (files w) = (st', fs', evs, x)"
  shows "script en inp w =
     (\<lparr>session_state = (session_state w)(''state'' \<mapsto> st'), files = fs'\<rparr>,
      Sidebar # evs @ (if x = None then [Footer] else []), x)"
  using assms
  by (cases x) (simp_all add: script_def Let_def labels_distinct init_session_state_keep)

lemma script_state_present:
  "\<exists>st. session_state (fst (script en inp w)) ''state'' = Some st"
proof (cases "choice inp = label_chatbot")
  case False
  then show ?thesis
    by (simp add: script_other_page init_session_state_present)
next
  case True
  obtain st where st: "init_session_state (session_state w) ''state'' = Some st"
    using init_session_state_present by blast
  obtain st' fs' evs x where
    "chatbot_page en inp st (files w) = (st', fs', evs, x)"
    by (cases "chatbot_page en inp st (files w)") auto
  with True st show ?thesis
    by (cases x) (simp_all add: script_def Let_def labels_distinct)
qed

lemma script_state_cases:
  obtains st0 where
    "init_session_state (session_state w) ''state'' = Some st0"
    "session_state (fst (script en inp w)) ''state'' = Some st0
       \<or> (\<exists>st' fs' evs x. chatbot_page en inp st0 (files w) = (st', fs', evs, x)
              \<and> session_state (fst (script en inp w)) ''state'' = Some st')"
proof -
  obtain st0 where st0: "init_session_state (session_state w) ''state'' = Some st0"
    using init_session_state_present by blast
  show thesis
  proof (cases "choice inp = label_chatbot")
    case False
    with st0 that[of st0] show thesis
      by (simp add: script_other_page)
  next
    case True
    obtain st' fs' evs x where
      c: "chatbot_page en inp st0 (files w) = (st', fs', evs, x)"
      by (cases "chatbot_page en inp st0 (files w)") auto
    with True st0 have "session_state (fst (script en inp w)) ''state'' = Some st'"
      by (cases x) (simp_all add: script_def Let_def labels_distinct)
    with c st0 that[of st0] show thesis by blast
  qed
qed

lemma init_session_state_cases:
  assumes "init_session_state ss ''state'' = Some st0"
  shows "ss ''state'' = Some st0 \<or> (ss ''state'' = None \<and> st0 = empty_state)"
  using assms by (auto simp: init_session_state_def split: option.splits)

text \<open>
  A property of the state that holds of the empty state and that the Chatbot page keeps
  holds after every run, hence throughout a session.
\<close>

lemma script_invariant:
  assumes start: "\<And>st. session_state w ''state'' = Some st \<Longrightarrow> P st"
    and empty: "P empty_state"
    and step: "\<And>en inp st fs st' fs' evs x.
       P st \<Longrightarrow> chatbot_page en inp st fs = (st', fs', evs, x) \<Longrightarrow> P st'"
    and after: "session_state (fst (script en inp w)) ''state'' = Some st"
  shows "P st"
proof -
  obtain st0 where st0: "init_session_state (session_state w) ''state'' = Some st0"
    and c: "session_state (fst (script en inp w)) ''state'' = Some st0
       \<or> (\<exists>st' fs' evs x. chatbot_page en inp st0 (files w) = (st', fs', evs, x)
              \<and> session_state (fst (script en inp w)) ''state'' = Some st')"
    by (rule script_state_cases)
  from init_session_state_cases[OF st0] start empty have p0: "P st0" by auto
  from c after p0 step show ?thesis by auto
qed

lemma session_invariant:
  assumes start: "\<And>st. session_state w ''state'' = Some st \<Longrightarrow> P st"
    and empty: "P empty_state"
    and step: "\<And>en inp st fs st' fs' evs x.
       P st \<Longrightarrow> chatbot_page en inp st fs = (st', fs', evs, x) \<Longrightarrow> P st'"
    and after: "session_state (fst (session runs w)) ''state'' = Some st"
  shows "P st"
  using start after
proof (induction runs arbitrary: w)
  case Nil
  then show ?case by simp
next
  case (Cons r runs)
  obtain en inp where r: "r = (en, inp)" by (cases r) auto
  have s: "fst (session (r # runs) w) = fst (session runs (fst (script en inp w)))"
    by (simp add: r split: prod.splits)
  have "\<And>st. session_state (fst (script en inp w)) ''state'' = Some st \<Longrightarrow> P st"
    using script_invariant[of w P en inp] Cons.prems(1) empty step by blast
  with Cons.IH[of "fst (script en inp w)"] Cons.prems(2) s show ?case by simp
qed

lemma chatbot_page_path:
  assumes "chatbot_page en inp st fs = (st', fs', evs, x)"
  shows "temp_pdf_path st' = (if uploaded_file inp = None then temp_pdf_path st else Some doc_pdf)"
  using assms
  by (elim chatbot_page_cases)
     (auto dest!: column1_path column2_frame column3_frame)

lemma chatbot_page_manager:
  assumes "chatbot_page en inp st fs = (st', fs', evs, x)" and "chatbot_manager st = Some m"
  shows "chatbot_manager st' = Some m"
proof -
  from assms(1) obtain st1 evs1 st2 evs2 x2 evs3 where
    c1: "column1 inp st fs = (st1, fs', evs1)" and
    c2: "column2 en inp st1 = (st2, evs2, x2)" and
    c3: "(x2 \<noteq> None \<and> st' = st2 \<and> evs3 = [] \<and> x = x2)
       \<or> (x2 = None \<and> column3 en inp st2 = (st', evs3, x))"
    by (rule chatbot_page_cases)
  from column1_frame[OF c1] assms(2) have "chatbot_manager st1 = Some m" by simp
  with column2_manager[OF c2] have "chatbot_manager st2 = Some m" by simp
  with c3 show ?thesis by (auto dest: column3_frame)
qed

lemma initialisations_present:
  "session_state w ''state'' = Some st \<Longrightarrow> initialisations runs w = 0"
proof (induction runs arbitrary: w st)
  case Nil
  then show ?case by simp
next
  case (Cons r runs)
  obtain en inp where r: "r = (en, inp)" by (cases r) auto
  obtain st' where "session_state (fst (script en inp w)) ''state'' = Some st'"
    using script_state_present by blast
  with Cons r show ?case by simp
qed

subsection \<open>Initialisation of the session state\<close>

text \<open>
  C4. When the script first runs in a session there is no key \<open>state\<close>, and lines 69-74
  store a state whose path and manager are \<open>None\<close> and whose message list is empty. A
  session state that has the key is left as it is. In a session of at least one run the
  initialising branch is taken in exactly one run.
\<close>

theorem session_state_initialised_once:
  "(ss ''state'' = None \<longrightarrow>
      init_session_state ss =
        ss(''state'' \<mapsto> \<lparr>temp_pdf_path = None, chatbot_manager = None, messages = []\<rparr>))
   \<and> (ss ''state'' \<noteq> None \<longrightarrow> init_session_state ss = ss)
   \<and> (runs \<noteq> [] \<longrightarrow> initialisations runs (new_session fs) = 1)"
proof (intro conjI impI)
  assume "ss ''state'' = None"
  then show "init_session_state ss =
      ss(''state'' \<mapsto> \<lparr>temp_pdf_path = None, chatbot_manager = None, messages = []\<rparr>)"
    by (simp add: init_session_state_fresh empty_state_def)
next
  assume "ss ''state'' \<noteq> None"
  then show "init_session_state ss = ss"
    by (auto simp: init_session_state_keep)
next
  assume "runs \<noteq> []"
  then obtain en inp rest where runs: "runs = (en, inp) # rest"
    by (cases runs) auto
  obtain st' where
    "session_state (fst (script en inp (new_session fs))) ''state'' = Some st'"
    using script_state_present by blast
  then have "initialisations rest (fst (script en inp (new_session fs))) = 0"
    by (rule initialisations_present)
  then show "initialisations runs (new_session fs) = 1"
    by (simp add: runs new_session_def)
qed

theorem session_state_initialised_once_witness:
  "init_session_state Map.empty = [''state'' \<mapsto> empty_state]
   \<and> init_session_state [''state'' \<mapsto> ready_state] = [''state'' \<mapsto> ready_state]
   \<and> initialisations
        [(env_ok, visit label_home), (env_ok, upload_and_embed sample_pdf),
         (env_ok, ask ''hi'')] (new_session Map.empty) = 1"
proof -
  have a: "(Map.empty :: session_state) ''state'' = None" by simp
  have b: "[''state'' \<mapsto> ready_state] ''state'' \<noteq> None" by simp
  have c: "[(env_ok, visit label_home), (env_ok, upload_and_embed sample_pdf),
            (env_ok, ask ''hi'')] \<noteq> []" by simp
  from session_state_initialised_once[of Map.empty "[]" Map.empty] a
  have 1: "init_session_state Map.empty = [''state'' \<mapsto> empty_state]"
    by (simp add: empty_state_def)
  from session_state_initialised_once[of "[''state'' \<mapsto> ready_state]" "[]" Map.empty] b
  have 2: "init_session_state [''state'' \<mapsto> ready_state] = [''state'' \<mapsto> ready_state]"
    by blast
  from session_state_initialised_once[of Map.empty _ Map.empty] c
  have 3: "initialisations
        [(env_ok, visit label_home), (env_ok, upload_and_embed sample_pdf),
         (env_ok, ask ''hi'')] (new_session Map.empty) = 1"
    by blast
  from 1 2 3 show ?thesis by blast
qed

subsection \<open>Which action writes which field\<close>

lemma column3_messages_prefix:
  "prefix (messages st) (messages (fst (column3 en inp st)))"
  by (auto simp: column3_def send_message_def Let_def
      split: option.splits prod.splits sum.splits)

lemma column3_idle:
  "user_input inp = None \<or> user_input inp = Some [] \<Longrightarrow> fst (column3 en inp st) = st"
  by (auto simp: column3_def split: option.splits prod.splits)

lemma column2_idle:
  "\<not> create_embeddings inp \<Longrightarrow> fst (column2 en inp st) = st"
  by (simp add: column2_def)

lemma column1_idle:
  "uploaded_file inp = None \<Longrightarrow> column1 inp st fs = (st, fs, [Header_upload])"
  by (simp add: column1_def)

lemma chatbot_page_idle:
  assumes "uploaded_file inp = None" and "\<not> create_embeddings inp"
    and "user_input inp = None"
    and "chatbot_page en inp st fs = (st', fs', evs, x)"
  shows "st' = st \<and> fs' = fs"
proof -
  from assms(4) obtain st1 evs1 st2 evs2 x2 evs3 where
    c1: "column1 inp st fs = (st1, fs', evs1)" and
    c2: "column2 en inp st1 = (st2, evs2, x2)" and
    c3: "(x2 \<noteq> None \<and> st' = st2 \<and> evs3 = [] \<and> x = x2)
       \<or> (x2 = None \<and> column3 en inp st2 = (st', evs3, x))"
    by (rule chatbot_page_cases)
  from c1 assms(1) have 1: "st1 = st" "fs' = fs" by (simp_all add: column1_idle)
  from c2 column2_idle[OF assms(2), of en st1] have 2: "st2 = st1" by simp
  from c3 column3_idle[of inp en st2] assms(3) have "st' = st2" by auto
  with 1 2 show ?thesis by simp
qed

text \<open>
  C6. The upload column writes only \<open>temp_pdf_path\<close>, the embeddings column only
  \<open>chatbot_manager\<close>, the chat column only \<open>messages\<close>, and that by appending. A column
  whose widget is idle writes nothing. A run of the Home or the Contact page does no
  more than the initialisation, so it leaves an initialised world as it is; so does a
  run of the Chatbot page with no upload, no ticked box and no message.
\<close>

theorem actions_write_disjoint_fields:
  "fst (column1 inp st fs) = st\<lparr>temp_pdf_path := temp_pdf_path (fst (column1 inp st fs))\<rparr>
   \<and> fst (column2 en inp st) = st\<lparr>chatbot_manager := chatbot_manager (fst (column2 en inp st))\<rparr>
   \<and> fst (column3 en inp st) = st\<lparr>messages := messages (fst (column3 en inp st))\<rparr>
   \<and> prefix (messages st) (messages (fst (column3 en inp st)))
   \<and> (uploaded_file inp = None \<longrightarrow> fst (column1 inp st fs) = st)
   \<and> (\<not> create_embeddings inp \<longrightarrow> fst (column2 en inp st) = st)
   \<and> (user_input inp = None \<longrightarrow> fst (column3 en inp st) = st)
   \<and> (choice inp \<noteq> label_chatbot \<longrightarrow>
        fst (script en inp w) = w\<lparr>session_state := init_session_state (session_state w)\<rparr>)
   \<and> (choice inp \<noteq> label_chatbot \<and> session_state w ''state'' \<noteq> None \<longrightarrow>
        fst (script en inp w) = w)
   \<and> (uploaded_file inp = None \<and> \<not> create_embeddings inp \<and> user_input inp = None
        \<and> session_state w ''state'' \<noteq> None \<longrightarrow>
        fst (script en inp w) = w)"
proof (intro conjI impI)
  obtain st1 fs1 evs1 where c1: "column1 inp st fs = (st1, fs1, evs1)"
    by (cases "column1 inp st fs") auto
  from column1_frame[OF c1] c1
  show "fst (column1 inp st fs) = st\<lparr>temp_pdf_path := temp_pdf_path (fst (column1 inp st fs))\<rparr>"
    by simp
next
  obtain st2 evs2 x2 where c2: "column2 en inp st = (st2, evs2, x2)"
    by (cases "column2 en inp st") auto
  from column2_frame[OF c2] c2
  show "fst (column2 en inp st) = st\<lparr>chatbot_manager := chatbot_manager (fst (column2 en inp st))\<rparr>"
    by simp
next
  obtain st3 evs3 x3 where c3: "column3 en inp st = (st3, evs3, x3)"
    by (cases "column3 en inp st") auto
  from column3_frame[OF c3] c3
  show "fst (column3 en inp st) = st\<lparr>messages := messages (fst (column3 en inp st))\<rparr>"
    by simp
next
  show "prefix (messages st) (messages (fst (column3 en inp st)))"
    by (rule column3_messages_prefix)
next
  assume "uploaded_file inp = None"
  then show "fst (column1 inp st fs) = st" by (simp add: column1_idle)
next
  assume "\<not> create_embeddings inp"
  then show "fst (column2 en inp st) = st" by (rule column2_idle)
next
  assume "user_input inp = None"
  then show "fst (column3 en inp st) = st" by (simp add: column3_idle)
next
  assume "choice inp \<noteq> label_chatbot"
  then show "fst (script en inp w) = w\<lparr>session_state := init_session_state (session_state w)\<rparr>"
    by (rule script_other_page)
next
  assume "choice inp \<noteq> label_chatbot \<and> session_state w ''state'' \<noteq> None"
  then show "fst (script en inp w) = w"
    by (auto simp: script_other_page init_session_state_keep)
next
  assume a: "uploaded_file inp = None \<and> \<not> create_embeddings inp \<and> user_input inp = None
        \<and> session_state w ''state'' \<noteq> None"
  then obtain st0 where st0: "session_state w ''state'' = Some st0" by auto
  show "fst (script en inp w) = w"
  proof (cases "choice inp = label_chatbot")
    case False
    with st0 show ?thesis by (simp add: script_other_page init_session_state_keep)
  next
    case True
    obtain st' fs' evs x where c: "chatbot_page en inp st0 (files w) = (st', fs', evs, x)"
      by (cases "chatbot_page en inp st0 (files w)") auto
    from chatbot_page_idle[OF _ _ _ c] a have "st' = st0" "fs' = files w" by simp_all
    with script_chatbot_page[OF True st0 c] st0 show ?thesis
      by (simp add: map_upd_triv)
  qed
qed

theorem actions_write_disjoint_fields_witness:
  "fst (column1 (visit label_home) ready_state Map.empty) = ready_state
   \<and> fst (column2 env_ok (visit label_home) ready_state) = ready_state
   \<and> fst (column3 env_ok (visit label_home) ready_state) = ready_state
   \<and> fst (script env_ok (visit label_home) ready_world) = ready_world"
proof -
  have h: "uploaded_file (visit label_home) = None"
    "\<not> create_embeddings (visit label_home)"
    "user_input (visit label_home) = None"
    "choice (visit label_home) \<noteq> label_chatbot"
    "session_state ready_world ''state'' \<noteq> None"
    by (simp_all add: visit_def ready_world_def labels_distinct)
  from actions_write_disjoint_fields
    [of "visit label_home" ready_state Map.empty env_ok ready_world] h
  show ?thesis by blast
qed

subsection \<open>The three pages\<close>

lemma render_messages_no_title:
  "filter is_page_title (fst (render_messages ms)) = []"
  by (induction ms) (auto split: option.splits prod.splits)

lemma column1_no_title:
  "column1 inp st fs = (st', fs', evs) \<Longrightarrow> filter is_page_title evs = []"
  by (auto simp: column1_def split: option.splits)

lemma column2_no_title:
  "column2 en inp st = (st', evs, x) \<Longrightarrow> filter is_page_title evs = []"
  by (auto simp: column2_def create_embeddings_try_def create_embeddings_except_def
      split: option.splits sum.splits if_splits)

lemma column3_no_title:
  assumes "column3 en inp st = (st', evs, x)"
  shows "filter is_page_title evs = []"
proof -
  obtain evs0 x0 where r: "render_messages (messages st) = (evs0, x0)"
    by (cases "render_messages (messages st)") auto
  with render_messages_no_title[of "messages st"]
  have "filter is_page_title evs0 = []" by simp
  with assms r show ?thesis
    by (auto simp: column3_def send_message_def Let_def
        split: option.splits sum.splits if_splits)
qed

lemma chatbot_page_titles:
  assumes "chatbot_page en inp st fs = (st', fs', evs, x)"
  shows "filter is_page_title evs = [Title_chatbot]"
proof -
  from assms obtain st1 evs1 st2 evs2 x2 evs3 where
    c1: "column1 inp st fs = (st1, fs', evs1)" and
    c2: "column2 en inp st1 = (st2, evs2, x2)" and
    c3: "(x2 \<noteq> None \<and> st' = st2 \<and> evs3 = [] \<and> x = x2)
       \<or> (x2 = None \<and> column3 en inp st2 = (st', evs3, x))" and
    evs: "evs = Title_chatbot # evs1 @ evs2 @ evs3"
    by (rule chatbot_page_cases)
  from c3 have "filter is_page_title evs3 = []"
    by (auto dest: column3_no_title)
  with column1_no_title[OF c1] column2_no_title[OF c2] evs show ?thesis by simp
qed

lemma script_titles_chatbot:
  assumes "choice inp = label_chatbot"
  shows "filter is_page_title (fst (snd (script en inp w))) = [Title_chatbot]"
proof -
  obtain st0 where st0: "init_session_state (session_state w) ''state'' = Some st0"
    using init_session_state_present by blast
  obtain st' fs' evs x where c: "chatbot_page en inp st0 (files w) = (st', fs', evs, x)"
    by (cases "chatbot_page en inp st0 (files w)") auto
  from chatbot_page_titles[OF c] assms st0 c show ?thesis
    by (cases x) (simp_all add: script_def Let_def labels_distinct)
qed

text \<open>
  C7. The menu has the three entries Home, Chatbot and Contact, all different. For a
  choice taken from the menu a run renders the title of exactly one page, and it is the
  page of that choice.
\<close>

theorem one_page_per_choice:
  "menu = [label_home, label_chatbot, label_contact]
   \<and> length menu = 3
   \<and> distinct menu
   \<and> (choice inp \<in> set menu \<longrightarrow>
        filter is_page_title (fst (snd (script en inp w))) =
          [if choice inp = label_home then Title_home
           else if choice inp = label_chatbot then Title_chatbot
           else Title_contact]
        \<and> (if choice inp = label_home then 1 else 0)
            + (if choice inp = label_chatbot then 1 else 0)
            + (if choice inp = label_contact then 1 else 0) = (1::nat))"
proof (intro conjI impI)
  show "menu = [label_home, label_chatbot, label_contact]" by (simp add: menu_def)
  show "length menu = 3" by (simp add: menu_def)
  show "distinct menu" by (simp add: menu_def labels_distinct)
next
  assume "choice inp \<in> set menu"
  then consider "choice inp = label_home" | "choice inp = label_chatbot"
    | "choice inp = label_contact"
    by (auto simp: menu_def)
  then show "filter is_page_title (fst (snd (script en inp w))) =
          [if choice inp = label_home then Title_home
           else if choice inp = label_chatbot then Title_chatbot
           else Title_contact]"
  proof cases
    case 1
    then show ?thesis by (simp add: script_def Let_def)
  next
    case 2
    then show ?thesis by (simp add: script_titles_chatbot labels_distinct)
  next
    case 3
    then show ?thesis by (simp add: script_def Let_def labels_distinct)
  qed
next
  assume "choice inp \<in> set menu"
  then show "(if choice inp = label_home then 1 else 0)
            + (if choice inp = label_chatbot then 1 else 0)
            + (if choice inp = label_contact then 1 else 0) = (1::nat)"
    by (auto simp: menu_def labels_distinct)
qed

theorem one_page_per_choice_witness:
  "choice (ask ''hi'') \<in> set menu
   \<and> filter is_page_title (fst (snd (script env_ok (ask ''hi'') ready_world)))
       = [Title_chatbot]"
proof -
  have h: "choice (ask ''hi'') \<in> set menu" by (simp add: ask_def menu_def)
  have c: "choice (ask ''hi'') = label_chatbot" by (simp add: ask_def)
  from one_page_per_choice[of "ask ''hi''" env_ok ready_world] h
  have "filter is_page_title (fst (snd (script env_ok (ask ''hi'') ready_world))) =
          [if choice (ask ''hi'') = label_home then Title_home
           else if choice (ask ''hi'') = label_chatbot then Title_chatbot
           else Title_contact]"
    by blast
  with h c show ?thesis by (simp add: labels_distinct)
qed

subsection \<open>The chatbot manager is created once\<close>

lemma session_Cons_fst:
  "fst (session ((en, inp) # runs) w) = fst (session runs (fst (script en inp w)))"
  by (simp split: prod.splits)

lemma session_state_present:
  "session_state w ''state'' = Some st \<Longrightarrow>
     \<exists>st'. session_state (fst (session runs w)) ''state'' = Some st'"
proof (induction runs arbitrary: w st)
  case Nil
  then show ?case by simp
next
  case (Cons r runs)
  obtain en inp where r: "r = (en, inp)" by (cases r) auto
  obtain st1 where "session_state (fst (script en inp w)) ''state'' = Some st1"
    using script_state_present by blast
  from Cons.IH[OF this] show ?case by (simp add: r session_Cons_fst del: session.simps)
qed

lemma session_manager_kept:
  assumes "session_state w ''state'' = Some st" and "chatbot_manager st = Some m"
    and "session_state (fst (session runs w)) ''state'' = Some st'"
  shows "chatbot_manager st' = Some m"
  using assms
proof (induction runs arbitrary: w st)
  case Nil
  then show ?case by simp
next
  case (Cons r runs)
  obtain en inp where r: "r = (en, inp)" by (cases r) auto
  have s: "fst (session (r # runs) w) = fst (session runs (fst (script en inp w)))"
    by (simp add: r split: prod.splits)
  obtain st1 where st1: "session_state (fst (script en inp w)) ''state'' = Some st1"
    using script_state_present by blast
  have "chatbot_manager st1 = Some m"
  proof (cases "choice inp = label_chatbot")
    case False
    with st1 Cons.prems(1,2) show ?thesis
      by (simp add: script_other_page init_session_state_keep)
  next
    case True
    obtain st2 fs' evs x where
      c: "chatbot_page en inp st (files w) = (st2, fs', evs, x)"
      by (cases "chatbot_page en inp st (files w)") auto
    from script_chatbot_page[OF True Cons.prems(1) c] st1 have "st1 = st2" by simp
    with chatbot_page_manager[OF c Cons.prems(2)] show ?thesis by simp
  qed
  from Cons.IH[OF st1 this] Cons.prems(3) s show ?case by simp
qed

text \<open>
  C8. When the session state holds a manager, the embeddings column leaves the state
  as it is and does not construct a \<open>ChatbotManager\<close>, whatever the inputs of the run;
  a changed manager field means the field was \<open>None\<close> before. Hence the instance stays
  in place over every later run of the session, uploads of other files included.
\<close>

theorem chatbot_manager_set_once:
  "(chatbot_manager st = Some m \<longrightarrow>
      fst (column2 en inp st) = st
      \<and> Init_ChatbotManager \<notin> set (fst (snd (column2 en inp st))))
   \<and> (chatbot_manager (fst (column2 en inp st)) \<noteq> chatbot_manager st \<longrightarrow>
        chatbot_manager st = None)
   \<and> (session_state w ''state'' = Some st \<and> chatbot_manager st = Some m \<longrightarrow>
        (\<exists>st'. session_state (fst (session runs w)) ''state'' = Some st'
           \<and> chatbot_manager st' = Some m))"
proof -
  obtain st2 evs2 x2 where c2: "column2 en inp st = (st2, evs2, x2)"
    by (cases "column2 en inp st") auto
  have 1: "chatbot_manager st = Some m \<longrightarrow>
      fst (column2 en inp st) = st
      \<and> Init_ChatbotManager \<notin> set (fst (snd (column2 en inp st)))"
    using column2_manager[OF c2] c2 by simp
  have 2: "chatbot_manager (fst (column2 en inp st)) \<noteq> chatbot_manager st \<longrightarrow>
        chatbot_manager st = None"
    using column2_manager[OF c2] c2 by (cases "chatbot_manager st") auto
  have 3: "session_state w ''state'' = Some st \<and> chatbot_manager st = Some m \<longrightarrow>
        (\<exists>st'. session_state (fst (session runs w)) ''state'' = Some st'
           \<and> chatbot_manager st' = Some m)"
  proof
    assume a: "session_state w ''state'' = Some st \<and> chatbot_manager st = Some m"
    then have "\<exists>st'. session_state (fst (session runs w)) ''state'' = Some st'"
      by (auto intro: session_state_present)
    then obtain st' where st': "session_state (fst (session runs w)) ''state'' = Some st'"
      by blast
    with session_manager_kept[of w st m runs st'] a show "\<exists>st'.
        session_state (fst (session runs w)) ''state'' = Some st' \<and> chatbot_manager st' = Some m"
      by blast
  qed
  from 1 2 3 show ?thesis by blast
qed

theorem chatbot_manager_set_once_witness:
  "chatbot_manager ready_state = Some 1
   \<and> fst (column2 (env_raising timeout_error) (upload_and_embed other_pdf) ready_state)
       = ready_state
   \<and> fst (column2 env_ok (upload_and_embed other_pdf) ready_state) = ready_state
   \<and> (\<exists>st'. session_state
          (fst (session [(env_raising timeout_error, upload_and_embed other_pdf),
                         (env_ok, upload_and_embed other_pdf)] ready_world)) ''state''
          = Some st'
        \<and> chatbot_manager st' = Some 1)"
proof -
  have h: "chatbot_manager ready_state = Some 1"
    "session_state ready_world ''state'' = Some ready_state"
    by (simp_all add: ready_state_def ready_world_def)
  from chatbot_manager_set_once
    [of ready_state 1 "env_raising timeout_error" "upload_and_embed other_pdf" ready_world
        "[(env_raising timeout_error, upload_and_embed other_pdf),
          (env_ok, upload_and_embed other_pdf)]"] h
  have 1: "fst (column2 (env_raising timeout_error) (upload_and_embed other_pdf) ready_state)
       = ready_state"
    and 2: "\<exists>st'. session_state
          (fst (session [(env_raising timeout_error, upload_and_embed other_pdf),
                         (env_ok, upload_and_embed other_pdf)] ready_world)) ''state''
          = Some st'
        \<and> chatbot_manager st' = Some 1"
    by blast+
  from chatbot_manager_set_once
    [of ready_state 1 env_ok "upload_and_embed other_pdf" ready_world "[]"] h
  have 3: "fst (column2 env_ok (upload_and_embed other_pdf) ready_state) = ready_state"
    by blast
  from h 1 2 3 show ?thesis by blast
qed

subsection \<open>The stored path\<close>

text \<open>
  C9. Throughout a session the stored path is \<open>None\<close> or the string \<open>doc.pdf\<close>. An
  upload stores that path and writes the file's bytes under it, so after two uploads
  the file holds the bytes of the second and the stored path is the same as after the
  first.
\<close>

theorem temp_pdf_path_is_doc_pdf:
  "(session_state (fst (session runs (new_session fs))) ''state'' = Some st \<longrightarrow>
      temp_pdf_path st = None \<or> temp_pdf_path st = Some ''doc.pdf'')
   \<and> (uploaded_file inp = Some f \<longrightarrow>
        column1 inp st0 fs0 =
          (st0\<lparr>temp_pdf_path := Some ''doc.pdf''\<rparr>, fs0(''doc.pdf'' \<mapsto> file_buffer f),
           [Header_upload, Success_uploaded (file_name f) (file_size f),
            Pdf_preview (file_buffer f)]))
   \<and> (uploaded_file inp = Some f \<and> uploaded_file inp' = Some f' \<longrightarrow>
        (case column1 inp st0 fs0 of
           (st1, fs1, evs1) \<Rightarrow>
             (case column1 inp' st1 fs1 of
                (st2, fs2, evs2) \<Rightarrow>
                  temp_pdf_path st2 = temp_pdf_path st1
                  \<and> fs2 = fs0(''doc.pdf'' \<mapsto> file_buffer f'))))"
proof (intro conjI impI)
  assume a: "session_state (fst (session runs (new_session fs))) ''state'' = Some st"
  have "temp_pdf_path st = None \<or> temp_pdf_path st = Some doc_pdf"
  proof (rule session_invariant
      [where P = "\<lambda>s. temp_pdf_path s = None \<or> temp_pdf_path s = Some doc_pdf", OF _ _ _ a])
    fix s assume "session_state (new_session fs) ''state'' = Some s"
    then show "temp_pdf_path s = None \<or> temp_pdf_path s = Some doc_pdf"
      by (simp add: new_session_def)
  next
    show "temp_pdf_path empty_state = None \<or> temp_pdf_path empty_state = Some doc_pdf"
      by (simp add: empty_state_def)
  next
    fix en inp s fs s' fs' evs x
    assume "temp_pdf_path s = None \<or> temp_pdf_path s = Some doc_pdf"
      and "chatbot_page en inp s fs = (s', fs', evs, x)"
    then show "temp_pdf_path s' = None \<or> temp_pdf_path s' = Some doc_pdf"
      by (auto dest: chatbot_page_path split: if_splits)
  qed
  then show "temp_pdf_path st = None \<or> temp_pdf_path st = Some ''doc.pdf''"
    by (simp add: doc_pdf_def)
next
  assume "uploaded_file inp = Some f"
  then show "column1 inp st0 fs0 =
          (st0\<lparr>temp_pdf_path := Some ''doc.pdf''\<rparr>, fs0(''doc.pdf'' \<mapsto> file_buffer f),
           [Header_upload, Success_uploaded (file_name f) (file_size f),
            Pdf_preview (file_buffer f)])"
    by (simp add: column1_def doc_pdf_def)
next
  assume "uploaded_file inp = Some f \<and> uploaded_file inp' = Some f'"
  then show "case column1 inp st0 fs0 of
           (st1, fs1, evs1) \<Rightarrow>
             (case column1 inp' st1 fs1 of
                (st2, fs2, evs2) \<Rightarrow>
                  temp_pdf_path st2 = temp_pdf_path st1
                  \<and> fs2 = fs0(''doc.pdf'' \<mapsto> file_buffer f'))"
    by (simp add: column1_def doc_pdf_def)
qed

theorem temp_pdf_path_is_doc_pdf_witness:
  "session_state
      (fst (session [(env_ok, upload_and_embed sample_pdf)] (new_session Map.empty))) ''state''
     = Some \<lparr>temp_pdf_path = Some ''doc.pdf'', chatbot_manager = Some 1, messages = []\<rparr>
   \<and> fst (snd (column1 (upload_and_embed sample_pdf) empty_state Map.empty))
       = [''doc.pdf'' \<mapsto> ''abc'']
   \<and> fst (snd (column1 (upload_and_embed other_pdf)
           (fst (column1 (upload_and_embed sample_pdf) empty_state Map.empty))
           (fst (snd (column1 (upload_and_embed sample_pdf) empty_state Map.empty)))))
       = [''doc.pdf'' \<mapsto> ''xy'']"
proof -
  have s: "session_state
      (fst (session [(env_ok, upload_and_embed sample_pdf)] (new_session Map.empty))) ''state''
     = Some \<lparr>temp_pdf_path = Some ''doc.pdf'', chatbot_manager = Some 1, messages = []\<rparr>"
    by (simp add: script_def Let_def upload_and_embed_def new_session_def
        init_session_state_def empty_state_def chatbot_page_def column1_def column2_def
        column3_def create_embeddings_try_def env_ok_def doc_pdf_def labels_distinct)
  have u: "uploaded_file (upload_and_embed sample_pdf) = Some sample_pdf"
    "uploaded_file (upload_and_embed other_pdf) = Some other_pdf"
    by (simp_all add: upload_and_embed_def)
  note t = temp_pdf_path_is_doc_pdf
    [of "[(env_ok, upload_and_embed sample_pdf)]" Map.empty
        "\<lparr>temp_pdf_path = Some ''doc.pdf'', chatbot_manager = Some 1, messages = []\<rparr>"
        "upload_and_embed sample_pdf" sample_pdf empty_state Map.empty
        "upload_and_embed other_pdf" other_pdf]
  from t u have 1: "fst (snd (column1 (upload_and_embed sample_pdf) empty_state Map.empty))
       = [''doc.pdf'' \<mapsto> ''abc'']"
    by (simp add: sample_pdf_def)
  from t u have 2: "fst (snd (column1 (upload_and_embed other_pdf)
           (fst (column1 (upload_and_embed sample_pdf) empty_state Map.empty))
           (fst (snd (column1 (upload_and_embed sample_pdf) empty_state Map.empty)))))
       = [''doc.pdf'' \<mapsto> ''xy'']"
    by (simp add: other_pdf_def split: prod.splits)
  from s 1 2 show ?thesis by blast
qed

subsection \<open>What the managers are called with\<close>

lemma create_embeddings_args_append:
  "create_embeddings_args (xs @ ys) = create_embeddings_args xs @ create_embeddings_args ys"
  by (induction xs rule: create_embeddings_args.induct) simp_all

lemma get_response_args_append:
  "get_response_args (xs @ ys) = get_response_args xs @ get_response_args ys"
  by (induction xs rule: get_response_args.induct) simp_all

lemma render_messages_no_call:
  "create_embeddings_args (fst (render_messages ms)) = []
   \<and> get_response_args (fst (render_messages ms)) = []"
  by (induction ms) (auto split: option.splits prod.splits)

lemma render_messages_wf:
  "list_all wf_turn ms \<Longrightarrow> snd (render_messages ms) = None"
  by (induction ms) (auto simp: wf_turn_def split: option.splits prod.splits)

text \<open>Column 2 when the box is ticked, a path is stored and the manager was built.\<close>

lemma column2_triggered:
  assumes "create_embeddings inp" and "temp_pdf_path st = Some p" and "p \<noteq> []"
    and "EmbeddingsManager_init en = None"
  shows "column2 en inp st =
     (case EmbeddingsManager_create_embeddings en p of
        Inl e \<Rightarrow>
          (st, [Header_embeddings, Init_EmbeddingsManager, Call_create_embeddings p]
                 @ fst (create_embeddings_except e),
           snd (create_embeddings_except e))
      | Inr result \<Rightarrow>
          (case chatbot_manager st of
             Some m \<Rightarrow>
               (st, [Header_embeddings, Init_EmbeddingsManager, Call_create_embeddings p,
                     Success result], None)
           | None \<Rightarrow>
               (case ChatbotManager_init en of
                  Inl e \<Rightarrow>
                    (st, [Header_embeddings, Init_EmbeddingsManager, Call_create_embeddings p,
                          Success result, Init_ChatbotManager]
                           @ fst (create_embeddings_except e),
                     snd (create_embeddings_except e))
                | Inr m \<Rightarrow>
                    (st\<lparr>chatbot_manager := Some m\<rparr>,
                     [Header_embeddings, Init_EmbeddingsManager, Call_create_embeddings p,
                      Success result, Init_ChatbotManager], None))))"
  using assms
  by (simp add: column2_def create_embeddings_try_def
      split: sum.splits option.splits prod.splits)

lemma create_embeddings_except_events:
  "create_embeddings_args (fst (create_embeddings_except e)) = []
   \<and> rendered_results (fst (create_embeddings_except e)) = []
   \<and> get_response_args (fst (create_embeddings_except e)) = []"
  by (simp add: create_embeddings_except_def)

text \<open>Column 3 when a manager is stored, the turns render and a message was typed.\<close>

lemma column3_send:
  assumes "chatbot_manager st = Some m" and "user_input inp = Some q" and "q \<noteq> []"
    and "snd (render_messages (messages st)) = None"
  shows "column3 en inp st =
     (case send_message en m q st of
        (st', evs', x) \<Rightarrow> (st', Header_chat # fst (render_messages (messages st)) @ evs', x))"
  using assms
  by (cases "render_messages (messages st)") (simp add: column3_def)

lemma column2_args:
  assumes "column2 en inp st = (st', evs, x)"
  shows "get_response_args evs = []
     \<and> (create_embeddings_args evs = []
          \<or> (\<exists>p. temp_pdf_path st = Some p \<and> create_embeddings_args evs = [p]))"
  using assms
  by (auto simp: column2_def create_embeddings_try_def create_embeddings_except_def
      split: option.splits sum.splits if_splits)

lemma column1_args:
  assumes "column1 inp st fs = (st', fs', evs)"
  shows "get_response_args evs = [] \<and> create_embeddings_args evs = []"
  using assms by (auto simp: column1_def split: option.splits)

lemma column3_args:
  assumes "column3 en inp st = (st', evs, x)"
  shows "create_embeddings_args evs = []
     \<and> (get_response_args evs = []
          \<or> (\<exists>m q. chatbot_manager st = Some m \<and> user_input inp = Some q
                \<and> get_response_args evs = [(m, q)]))"
proof -
  obtain evs0 x0 where r: "render_messages (messages st) = (evs0, x0)"
    by (cases "render_messages (messages st)") auto
  with render_messages_no_call[of "messages st"]
  have "create_embeddings_args evs0 = []" "get_response_args evs0 = []" by simp_all
  with assms r show ?thesis
    by (auto simp: column3_def send_message_def Let_def create_embeddings_args_append
        get_response_args_append split: option.splits sum.splits if_splits)
qed

lemma chatbot_page_args:
  assumes "chatbot_page en inp st fs = (st', fs', evs, x)"
  shows "(create_embeddings_args evs = []
          \<or> (\<exists>p. temp_pdf_path st' = Some p \<and> create_embeddings_args evs = [p]))
     \<and> (get_response_args evs = []
          \<or> (\<exists>m q. chatbot_manager st' = Some m \<and> user_input inp = Some q
                \<and> get_response_args evs = [(m, q)]))"
proof -
  from assms obtain st1 evs1 st2 evs2 x2 evs3 where
    c1: "column1 inp st fs = (st1, fs', evs1)" and
    c2: "column2 en inp st1 = (st2, evs2, x2)" and
    c3: "(x2 \<noteq> None \<and> st' = st2 \<and> evs3 = [] \<and> x = x2)
       \<or> (x2 = None \<and> column3 en inp st2 = (st', evs3, x))" and
    evs: "evs = Title_chatbot # evs1 @ evs2 @ evs3"
    by (rule chatbot_page_cases)
  note a1 = column1_args[OF c1] and a2 = column2_args[OF c2] and f2 = column2_frame[OF c2]
  from c3 have a3: "create_embeddings_args evs3 = []
     \<and> (get_response_args evs3 = []
          \<or> (\<exists>m q. chatbot_manager st2 = Some m \<and> user_input inp = Some q
                \<and> get_response_args evs3 = [(m, q)]))"
    by (auto dest: column3_args)
  from c3 have f3: "temp_pdf_path st' = temp_pdf_path st2 \<and> chatbot_manager st' = chatbot_manager st2"
    by (auto dest: column3_frame)
  from a1 a2 a3 f2 f3 evs show ?thesis
    by (auto simp: create_embeddings_args_append get_response_args_append)
qed

text \<open>
  C1. When the box is ticked, a path is stored and the embeddings manager was built,
  the run calls \<open>create_embeddings\<close> once, with the stored path, and renders what the
  call returns. When a manager is stored and a message was typed, the run calls
  \<open>get_response\<close> of the stored manager once, with the typed string, and renders and
  stores what the call returns. In every run of the Chatbot page a manager call, if
  there is one, has the stored path, or the stored manager and the typed string, as
  its argument.
\<close>

theorem managers_get_stored_values:
  "(create_embeddings inp \<and> temp_pdf_path st = Some p \<and> p \<noteq> []
      \<and> EmbeddingsManager_init en = None \<longrightarrow>
      create_embeddings_args (fst (snd (column2 en inp st))) = [p]
      \<and> rendered_results (fst (snd (column2 en inp st))) =
          (case EmbeddingsManager_create_embeddings en p of
             Inl e \<Rightarrow> [] | Inr result \<Rightarrow> [result]))
   \<and> (chatbot_manager st = Some m \<and> user_input inp = Some q \<and> q \<noteq> []
      \<and> snd (render_messages (messages st)) = None \<longrightarrow>
      get_response_args (fst (snd (column3 en inp st))) = [(m, q)]
      \<and> (\<forall>answer. ChatbotManager_get_response en m q = Inr answer \<longrightarrow>
            last (fst (snd (column3 en inp st))) = Chat_message ''assistant'' answer
            \<and> last (messages (fst (column3 en inp st))) = turn ''assistant'' answer))
   \<and> (chatbot_page en inp st fs = (st', fs', evs, x) \<longrightarrow>
        (create_embeddings_args evs = []
          \<or> (\<exists>p'. temp_pdf_path st' = Some p' \<and> create_embeddings_args evs = [p']))
        \<and> (get_response_args evs = []
          \<or> (\<exists>m' q'. chatbot_manager st' = Some m' \<and> user_input inp = Some q'
                \<and> get_response_args evs = [(m', q')])))"
proof (intro conjI impI allI)
  assume a: "create_embeddings inp \<and> temp_pdf_path st = Some p \<and> p \<noteq> []
      \<and> EmbeddingsManager_init en = None"
  then have c: "column2 en inp st =
     (case EmbeddingsManager_create_embeddings en p of
        Inl e \<Rightarrow>
          (st, [Header_embeddings, Init_EmbeddingsManager, Call_create_embeddings p]
                 @ fst (create_embeddings_except e),
           snd (create_embeddings_except e))
      | Inr result \<Rightarrow>
          (case chatbot_manager st of
             Some m \<Rightarrow>
               (st, [Header_embeddings, Init_EmbeddingsManager, Call_create_embeddings p,
                     Success result], None)
           | None \<Rightarrow>
               (case ChatbotManager_init en of
                  Inl e \<Rightarrow>
                    (st, [Header_embeddings, Init_EmbeddingsManager, Call_create_embeddings p,
                          Success result, Init_ChatbotManager]
                           @ fst (create_embeddings_except e),
                     snd (create_embeddings_except e))
                | Inr m \<Rightarrow>
                    (st\<lparr>chatbot_manager := Some m\<rparr>,
                     [Header_embeddings, Init_EmbeddingsManager, Call_create_embeddings p,
                      Success result, Init_ChatbotManager], None))))"
    by (intro column2_triggered) simp_all
  show "create_embeddings_args (fst (snd (column2 en inp st))) = [p]"
    unfolding c
    by (simp add: create_embeddings_except_events split: sum.splits option.splits)
  show "rendered_results (fst (snd (column2 en inp st))) =
          (case EmbeddingsManager_create_embeddings en p of
             Inl e \<Rightarrow> [] | Inr result \<Rightarrow> [result])"
    unfolding c
    by (simp add: create_embeddings_except_events split: sum.splits option.splits)
next
  assume a: "chatbot_manager st = Some m \<and> user_input inp = Some q \<and> q \<noteq> []
      \<and> snd (render_messages (messages st)) = None"
  then have c: "column3 en inp st =
     (case send_message en m q st of
        (st', evs', x) \<Rightarrow> (st', Header_chat # fst (render_messages (messages st)) @ evs', x))"
    by (intro column3_send) simp_all
  show "get_response_args (fst (snd (column3 en inp st))) = [(m, q)]"
    unfolding c
    by (simp add: send_message_def Let_def get_response_args_append render_messages_no_call
        split: sum.splits)
  fix answer
  assume "ChatbotManager_get_response en m q = Inr answer"
  then show "last (fst (snd (column3 en inp st))) = Chat_message ''assistant'' answer"
    and "last (messages (fst (column3 en inp st))) = turn ''assistant'' answer"
    unfolding c by (simp_all add: send_message_def Let_def)
next
  assume "chatbot_page en inp st fs = (st', fs', evs, x)"
  from chatbot_page_args[OF this]
  show "create_embeddings_args evs = []
          \<or> (\<exists>p'. temp_pdf_path st' = Some p' \<and> create_embeddings_args evs = [p'])"
    and "get_response_args evs = []
          \<or> (\<exists>m' q'. chatbot_manager st' = Some m' \<and> user_input inp = Some q'
                \<and> get_response_args evs = [(m', q')])"
    by blast+
qed

theorem managers_get_stored_values_witness:
  "create_embeddings_args
      (fst (snd (column2 env_ok (upload_and_embed sample_pdf)
                   (empty_state\<lparr>temp_pdf_path := Some doc_pdf\<rparr>)))) = [''doc.pdf'']
   \<and> rendered_results
      (fst (snd (column2 env_ok (upload_and_embed sample_pdf)
                   (empty_state\<lparr>temp_pdf_path := Some doc_pdf\<rparr>)))) = [''indexed doc.pdf'']
   \<and> get_response_args (fst (snd (column3 env_ok (ask ''why'') ready_state))) = [(1, ''why'')]
   \<and> last (fst (snd (column3 env_ok (ask ''why'') ready_state)))
       = Chat_message ''assistant'' ''re: why''
   \<and> last (messages (fst (column3 env_ok (ask ''why'') ready_state)))
       = turn ''assistant'' ''re: why''"
proof -
  have h1: "create_embeddings (upload_and_embed sample_pdf)
      \<and> temp_pdf_path (empty_state\<lparr>temp_pdf_path := Some doc_pdf\<rparr>) = Some doc_pdf
      \<and> doc_pdf \<noteq> [] \<and> EmbeddingsManager_init env_ok = None"
    by (simp add: upload_and_embed_def doc_pdf_def env_ok_def)
  have h2: "chatbot_manager ready_state = Some 1 \<and> user_input (ask ''why'') = Some ''why''
      \<and> ''why'' \<noteq> [] \<and> snd (render_messages (messages ready_state)) = None"
    by (simp add: ready_state_def ask_def turn_def)
  have r: "EmbeddingsManager_create_embeddings env_ok doc_pdf = Inr ''indexed doc.pdf''"
    "ChatbotManager_get_response env_ok 1 ''why'' = Inr ''re: why''"
    by (simp_all add: env_ok_def doc_pdf_def)
  note t = managers_get_stored_values
    [of "upload_and_embed sample_pdf" "empty_state\<lparr>temp_pdf_path := Some doc_pdf\<rparr>"
        doc_pdf env_ok]
  note u = managers_get_stored_values
    [of "ask ''why''" ready_state _ env_ok 1 "''why''"]
  from t h1 r(1) have a: "create_embeddings_args
      (fst (snd (column2 env_ok (upload_and_embed sample_pdf)
                   (empty_state\<lparr>temp_pdf_path := Some doc_pdf\<rparr>)))) = [''doc.pdf'']"
    "rendered_results
      (fst (snd (column2 env_ok (upload_and_embed sample_pdf)
                   (empty_state\<lparr>temp_pdf_path := Some doc_pdf\<rparr>)))) = [''indexed doc.pdf'']"
    by (simp_all add: doc_pdf_def)
  from u h2 r(2) have b:
    "get_response_args (fst (snd (column3 env_ok (ask ''why'') ready_state))) = [(1, ''why'')]"
    "last (fst (snd (column3 env_ok (ask ''why'') ready_state)))
       = Chat_message ''assistant'' ''re: why''"
    "last (messages (fst (column3 env_ok (ask ''why'') ready_state)))
       = turn ''assistant'' ''re: why''"
    by blast+
  from a b show ?thesis by blast
qed

subsection \<open>Exceptions of the manager calls\<close>

lemma create_embeddings_except_caught:
  "isinstance_Exception e \<Longrightarrow>
     create_embeddings_except e =
       ([Error (if exn_class e \<in> {FileNotFoundError, ValueError, ConnectionError}
                then exn_text e else unexpected_prefix @ exn_text e)], None)"
  by (simp add: create_embeddings_except_def)

lemma create_embeddings_except_escapes:
  "create_embeddings_except e = (evs, Some e') \<Longrightarrow> e' = e \<and> \<not> isinstance_Exception e"
  by (auto simp: create_embeddings_except_def split: if_splits)

lemma column2_escapes:
  assumes "column2 en inp st = (st', evs, Some e)"
  shows "\<not> isinstance_Exception e"
  using assms
  by (auto simp: column2_def split: option.splits if_splits prod.splits
      dest: create_embeddings_except_escapes)

lemma send_message_escapes:
  "send_message en m q st = (st', evs, Some e) \<Longrightarrow> \<not> isinstance_Exception e"
  by (auto simp: send_message_def Let_def split: sum.splits if_splits)

text \<open>
  C2, as the code has it. An exception that \<open>create_embeddings\<close> raises and that
  is an instance of \<open>Exception\<close> ends the embeddings column with one error message (the
  exception's text for \<open>FileNotFoundError\<close>, \<open>ValueError\<close> and \<open>ConnectionError\<close>, the
  text after a fixed prefix for any other), with the state as it was, one call made and
  nothing escaping. An exception that \<open>get_response\<close> raises and that is an instance of
  \<open>Exception\<close> becomes the answer, a fixed prefix followed by the exception's text, which
  is rendered and stored as the assistant's turn, and nothing escapes. An exception that
  escapes the embeddings column or the sending of a message is not an instance of
  \<open>Exception\<close>.
\<close>

theorem exceptions_become_messages:
  "(create_embeddings inp \<and> temp_pdf_path st = Some p \<and> p \<noteq> []
      \<and> EmbeddingsManager_init en = None
      \<and> EmbeddingsManager_create_embeddings en p = Inl e \<and> isinstance_Exception e \<longrightarrow>
      column2 en inp st =
        (st,
         [Header_embeddings, Init_EmbeddingsManager, Call_create_embeddings p,
          Error (if exn_class e \<in> {FileNotFoundError, ValueError, ConnectionError}
                 then exn_text e else unexpected_prefix @ exn_text e)],
         None))
   \<and> (chatbot_manager st = Some m \<and> user_input inp = Some q \<and> q \<noteq> []
      \<and> snd (render_messages (messages st)) = None
      \<and> ChatbotManager_get_response en m q = Inl e \<and> isinstance_Exception e \<longrightarrow>
      column3 en inp st =
        (st\<lparr>messages := messages st
              @ [turn ''user'' q, turn ''assistant'' (chat_error_prefix @ exn_text e)]\<rparr>,
         Header_chat # fst (render_messages (messages st))
           @ [Chat_message ''user'' q, Call_get_response m q,
              Chat_message ''assistant'' (chat_error_prefix @ exn_text e)],
         None))
   \<and> (snd (snd (column2 en inp st)) = Some e' \<longrightarrow> \<not> isinstance_Exception e')
   \<and> (snd (snd (send_message en m q st)) = Some e' \<longrightarrow> \<not> isinstance_Exception e')"
proof (intro conjI impI)
  assume a: "create_embeddings inp \<and> temp_pdf_path st = Some p \<and> p \<noteq> []
      \<and> EmbeddingsManager_init en = None
      \<and> EmbeddingsManager_create_embeddings en p = Inl e \<and> isinstance_Exception e"
  then have "column2 en inp st =
      (st, [Header_embeddings, Init_EmbeddingsManager, Call_create_embeddings p]
             @ fst (create_embeddings_except e),
       snd (create_embeddings_except e))"
    using column2_triggered[of inp st p en] by simp
  with a show "column2 en inp st =
        (st,
         [Header_embeddings, Init_EmbeddingsManager, Call_create_embeddings p,
          Error (if exn_class e \<in> {FileNotFoundError, ValueError, ConnectionError}
                 then exn_text e else unexpected_prefix @ exn_text e)],
         None)"
    by (simp add: create_embeddings_except_caught)
next
  assume a: "chatbot_manager st = Some m \<and> user_input inp = Some q \<and> q \<noteq> []
      \<and> snd (render_messages (messages st)) = None
      \<and> ChatbotManager_get_response en m q = Inl e \<and> isinstance_Exception e"
  then have "column3 en inp st =
     (case send_message en m q st of
        (st', evs', x) \<Rightarrow> (st', Header_chat # fst (render_messages (messages st)) @ evs', x))"
    by (intro column3_send) simp_all
  with a show "column3 en inp st =
        (st\<lparr>messages := messages st
              @ [turn ''user'' q, turn ''assistant'' (chat_error_prefix @ exn_text e)]\<rparr>,
         Header_chat # fst (render_messages (messages st))
           @ [Chat_message ''user'' q, Call_get_response m q,
              Chat_message ''assistant'' (chat_error_prefix @ exn_text e)],
         None)"
    by (simp add: send_message_def Let_def)
next
  assume "snd (snd (column2 en inp st)) = Some e'"
  then have "column2 en inp st = (fst (column2 en inp st), fst (snd (column2 en inp st)), Some e')"
    by (metis prod.collapse)
  then show "\<not> isinstance_Exception e'" by (rule column2_escapes)
next
  assume "snd (snd (send_message en m q st)) = Some e'"
  then have "send_message en m q st
      = (fst (send_message en m q st), fst (snd (send_message en m q st)), Some e')"
    by (metis prod.collapse)
  then show "\<not> isinstance_Exception e'" by (rule send_message_escapes)
qed

theorem exceptions_become_messages_witness:
  "isinstance_Exception timeout_error
   \<and> column2 (env_raising timeout_error) (upload_and_embed sample_pdf)
        (empty_state\<lparr>temp_pdf_path := Some doc_pdf\<rparr>) =
       (empty_state\<lparr>temp_pdf_path := Some doc_pdf\<rparr>,
        [Header_embeddings, Init_EmbeddingsManager, Call_create_embeddings ''doc.pdf'',
         Error ''An unexpected error occurred: timed out''],
        None)
   \<and> messages (fst (column3 (env_raising timeout_error) (ask ''why'') ready_state)) =
       [turn ''user'' ''hi'', turn ''assistant'' ''hello'', turn ''user'' ''why'',
        turn ''assistant'' (chat_error_prefix @ ''timed out'')]
   \<and> snd (snd (column3 (env_raising timeout_error) (ask ''why'') ready_state)) = None
   \<and> snd (snd (column2 (env_raising system_exit) (upload_and_embed sample_pdf)
        (empty_state\<lparr>temp_pdf_path := Some doc_pdf\<rparr>))) = Some system_exit
   \<and> \<not> isinstance_Exception system_exit"
proof -
  have i: "isinstance_Exception timeout_error"
    by (simp add: isinstance_Exception_def timeout_error_def)
  have h1: "create_embeddings (upload_and_embed sample_pdf)
      \<and> temp_pdf_path (empty_state\<lparr>temp_pdf_path := Some doc_pdf\<rparr>) = Some doc_pdf
      \<and> doc_pdf \<noteq> []
      \<and> EmbeddingsManager_init (env_raising timeout_error) = None
      \<and> EmbeddingsManager_create_embeddings (env_raising timeout_error) doc_pdf
          = Inl timeout_error"
    by (simp add: upload_and_embed_def doc_pdf_def env_raising_def)
  have h2: "chatbot_manager ready_state = Some 1 \<and> user_input (ask ''why'') = Some ''why''
      \<and> ''why'' \<noteq> [] \<and> snd (render_messages (messages ready_state)) = None
      \<and> ChatbotManager_get_response (env_raising timeout_error) 1 ''why'' = Inl timeout_error"
    by (simp add: ready_state_def ask_def turn_def env_raising_def)
  have h3: "snd (snd (column2 (env_raising system_exit) (upload_and_embed sample_pdf)
        (empty_state\<lparr>temp_pdf_path := Some doc_pdf\<rparr>))) = Some system_exit"
    by (simp add: column2_def create_embeddings_try_def create_embeddings_except_def
        env_raising_def upload_and_embed_def doc_pdf_def system_exit_def
        isinstance_Exception_def)
  note t = exceptions_become_messages
    [of "upload_and_embed sample_pdf" "empty_state\<lparr>temp_pdf_path := Some doc_pdf\<rparr>"
        doc_pdf "env_raising timeout_error" timeout_error]
  note u = exceptions_become_messages
    [of "ask ''why''" ready_state _ "env_raising timeout_error" timeout_error 1 "''why''"]
  note v = exceptions_become_messages
    [of "upload_and_embed sample_pdf" "empty_state\<lparr>temp_pdf_path := Some doc_pdf\<rparr>"
        _ "env_raising system_exit" _ _ _ system_exit]
  from t h1 i have "column2 (env_raising timeout_error) (upload_and_embed sample_pdf)
        (empty_state\<lparr>temp_pdf_path := Some doc_pdf\<rparr>) =
       (empty_state\<lparr>temp_pdf_path := Some doc_pdf\<rparr>,
        [Header_embeddings, Init_EmbeddingsManager, Call_create_embeddings doc_pdf,
         Error (if exn_class timeout_error \<in> {FileNotFoundError, ValueError, ConnectionError}
                then exn_text timeout_error
                else unexpected_prefix @ exn_text timeout_error)],
        None)"
    by blast
  then have a: "column2 (env_raising timeout_error) (upload_and_embed sample_pdf)
        (empty_state\<lparr>temp_pdf_path := Some doc_pdf\<rparr>) =
       (empty_state\<lparr>temp_pdf_path := Some doc_pdf\<rparr>,
        [Header_embeddings, Init_EmbeddingsManager, Call_create_embeddings ''doc.pdf'',
         Error ''An unexpected error occurred: timed out''],
        None)"
    by (simp add: timeout_error_def unexpected_prefix_def doc_pdf_def)
  from u h2 i have "column3 (env_raising timeout_error) (ask ''why'') ready_state =
        (ready_state\<lparr>messages := messages ready_state
              @ [turn ''user'' ''why'',
                 turn ''assistant'' (chat_error_prefix @ exn_text timeout_error)]\<rparr>,
         Header_chat # fst (render_messages (messages ready_state))
           @ [Chat_message ''user'' ''why'', Call_get_response 1 ''why'',
              Chat_message ''assistant'' (chat_error_prefix @ exn_text timeout_error)],
         None)"
    by blast
  then have b:
    "messages (fst (column3 (env_raising timeout_error) (ask ''why'') ready_state)) =
       [turn ''user'' ''hi'', turn ''assistant'' ''hello'', turn ''user'' ''why'',
        turn ''assistant'' (chat_error_prefix @ ''timed out'')]"
    "snd (snd (column3 (env_raising timeout_error) (ask ''why'') ready_state)) = None"
    by (simp_all add: ready_state_def timeout_error_def)
  from v h3 have c: "\<not> isinstance_Exception system_exit" by blast
  from i a b h3 c show ?thesis by blast
qed

text \<open>
  When \<open>create_embeddings\<close> raises an exception that is not an instance of
  \<open>Exception\<close>, none of the four clauses of lines 151-158 catches it: the embeddings
  column renders no error message and the exception ends the run, before the chat
  column and the footer.
\<close>

theorem create_embeddings_uncaught_exit:
  "column2 (env_raising system_exit) (upload_and_embed sample_pdf)
      (empty_state\<lparr>temp_pdf_path := Some doc_pdf\<rparr>) =
     (empty_state\<lparr>temp_pdf_path := Some doc_pdf\<rparr>,
      [Header_embeddings, Init_EmbeddingsManager, Call_create_embeddings ''doc.pdf''],
      Some system_exit)
   \<and> snd (script (env_raising system_exit) (upload_and_embed sample_pdf)
            (new_session Map.empty)) =
     ([Sidebar, Title_chatbot, Header_upload, Success_uploaded ''a.pdf'' 3,
       Pdf_preview ''abc'', Header_embeddings, Init_EmbeddingsManager,
       Call_create_embeddings ''doc.pdf''],
      Some system_exit)"
  by (simp add: script_def Let_def new_session_def init_session_state_def empty_state_def
      chatbot_page_def column1_def column2_def create_embeddings_try_def
      create_embeddings_except_def isinstance_Exception_def labels_distinct
      env_raising_def system_exit_def sample_pdf_def upload_and_embed_def doc_pdf_def)

subsection \<open>The chat turns\<close>

lemma wf_turn_turn:
  "wf_turn (turn ''user'' c)" "wf_turn (turn ''assistant'' c)"
  by (simp_all add: wf_turn_def turn_def)

lemma send_message_messages:
  "send_message en m q st = (st', evs, x) \<Longrightarrow>
     \<exists>new. messages st' = messages st @ new \<and> list_all wf_turn new"
  by (auto simp: send_message_def Let_def wf_turn_turn split: sum.splits if_splits)

lemma column3_messages:
  assumes "column3 en inp st = (st', evs, x)"
  shows "\<exists>new. messages st' = messages st @ new \<and> list_all wf_turn new"
proof (cases "messages st' = messages st")
  case True
  then show ?thesis by simp
next
  case False
  with assms obtain m q where "send_message en m q st = (st', drop (Suc (length (fst (render_messages (messages st))))) evs, x)"
    by (auto simp: column3_def split: option.splits if_splits prod.splits)
  then show ?thesis by (rule send_message_messages)
qed

lemma chatbot_page_messages:
  assumes "chatbot_page en inp st fs = (st', fs', evs, x)"
  shows "\<exists>new. messages st' = messages st @ new \<and> list_all wf_turn new"
proof -
  from assms obtain st1 evs1 st2 evs2 x2 evs3 where
    c1: "column1 inp st fs = (st1, fs', evs1)" and
    c2: "column2 en inp st1 = (st2, evs2, x2)" and
    c3: "(x2 \<noteq> None \<and> st' = st2 \<and> evs3 = [] \<and> x = x2)
       \<or> (x2 = None \<and> column3 en inp st2 = (st', evs3, x))"
    by (rule chatbot_page_cases)
  from column1_frame[OF c1] column2_frame[OF c2] have m: "messages st2 = messages st"
    by simp
  from c3 have "\<exists>new. messages st' = messages st2 @ new \<and> list_all wf_turn new"
    by (auto dest: column3_messages)
  with m show ?thesis by simp
qed

lemma script_messages:
  assumes "session_state w ''state'' = Some st"
    and "session_state (fst (script en inp w)) ''state'' = Some st'"
  shows "\<exists>new. messages st' = messages st @ new \<and> list_all wf_turn new"
proof (cases "choice inp = label_chatbot")
  case False
  with assms show ?thesis
    by (simp add: script_other_page init_session_state_keep)
next
  case True
  obtain st2 fs' evs x where c: "chatbot_page en inp st (files w) = (st2, fs', evs, x)"
    by (cases "chatbot_page en inp st (files w)") auto
  from script_chatbot_page[OF True assms(1) c] assms(2) have "st' = st2" by simp
  with chatbot_page_messages[OF c] show ?thesis by simp
qed

lemma session_messages:
  assumes "session_state w ''state'' = Some st"
    and "session_state (fst (session runs w)) ''state'' = Some st'"
  shows "\<exists>new. messages st' = messages st @ new \<and> list_all wf_turn new"
  using assms
proof (induction runs arbitrary: w st)
  case Nil
  then show ?case by simp
next
  case (Cons r runs)
  obtain en inp where r: "r = (en, inp)" by (cases r) auto
  obtain st1 where st1: "session_state (fst (script en inp w)) ''state'' = Some st1"
    using script_state_present by blast
  from script_messages[OF Cons.prems(1) st1] obtain new1 where
    n1: "messages st1 = messages st @ new1" "list_all wf_turn new1" by blast
  from Cons.prems(2) have "session_state (fst (session runs (fst (script en inp w)))) ''state'' = Some st'"
    by (simp add: r session_Cons_fst del: session.simps)
  from Cons.IH[OF st1 this] obtain new2 where
    n2: "messages st' = messages st1 @ new2" "list_all wf_turn new2" by blast
  from n1 n2 have "messages st' = messages st @ (new1 @ new2) \<and> list_all wf_turn (new1 @ new2)"
    by simp
  then show ?case by blast
qed

text \<open>
  C5. The session state is a record of three fields: an optional path, an optional
  manager and a list of turns. A well-formed turn is a dict with the two keys \<open>role\<close>
  and \<open>content\<close>, in this order, whose role is \<open>user\<close> or \<open>assistant\<close>. Throughout a
  session every stored turn is well formed, and over any runs the list of turns only
  grows at its end: the list after is the list before followed by well-formed turns.
\<close>

theorem messages_only_grow:
  "(session_state (fst (session runs (new_session fs))) ''state'' = Some st \<longrightarrow>
      list_all wf_turn (messages st))
   \<and> (session_state w ''state'' = Some st0
      \<and> session_state (fst (session runs w)) ''state'' = Some st1 \<longrightarrow>
      prefix (messages st0) (messages st1)
      \<and> list_all wf_turn (drop (length (messages st0)) (messages st1)))
   \<and> (wf_turn d \<longleftrightarrow>
        (\<exists>r c. d = [(''role'', r), (''content'', c)] \<and> (r = ''user'' \<or> r = ''assistant'')))"
proof (intro conjI impI)
  assume a: "session_state (fst (session runs (new_session fs))) ''state'' = Some st"
  show "list_all wf_turn (messages st)"
  proof (rule session_invariant[where P = "\<lambda>s. list_all wf_turn (messages s)", OF _ _ _ a])
    fix s assume "session_state (new_session fs) ''state'' = Some s"
    then show "list_all wf_turn (messages s)" by (simp add: new_session_def)
  next
    show "list_all wf_turn (messages empty_state)" by (simp add: empty_state_def)
  next
    fix en inp s fs s' fs' evs x
    assume "list_all wf_turn (messages s)" and "chatbot_page en inp s fs = (s', fs', evs, x)"
    then show "list_all wf_turn (messages s')"
      by (auto dest: chatbot_page_messages)
  qed
next
  assume "session_state w ''state'' = Some st0
      \<and> session_state (fst (session runs w)) ''state'' = Some st1"
  then obtain new where "messages st1 = messages st0 @ new" "list_all wf_turn new"
    using session_messages by blast
  then show "prefix (messages st0) (messages st1)"
    and "list_all wf_turn (drop (length (messages st0)) (messages st1))"
    by simp_all
next
  show "wf_turn d \<longleftrightarrow>
        (\<exists>r c. d = [(''role'', r), (''content'', c)] \<and> (r = ''user'' \<or> r = ''assistant''))"
  proof
    assume w: "wf_turn d"
    then have "map fst d = [''role'', ''content'']" by (simp add: wf_turn_def)
    then obtain r c where d: "d = [(''role'', r), (''content'', c)]"
      by (auto simp: map_eq_Cons_conv)
    with w have "r = ''user'' \<or> r = ''assistant''" by (simp add: wf_turn_def)
    with d show "\<exists>r c. d = [(''role'', r), (''content'', c)] \<and> (r = ''user'' \<or> r = ''assistant'')"
      by blast
  next
    assume "\<exists>r c. d = [(''role'', r), (''content'', c)] \<and> (r = ''user'' \<or> r = ''assistant'')"
    then show "wf_turn d" by (auto simp: wf_turn_def)
  qed
qed

lemmas run_defs =
  script_def Let_def new_session_def init_session_state_def empty_state_def
  chatbot_page_def column1_def column2_def column3_def create_embeddings_try_def
  create_embeddings_except_def send_message_def isinstance_Exception_def
  labels_distinct

lemmas sample_defs =
  env_ok_def env_raising_def timeout_error_def system_exit_def sample_pdf_def
  other_pdf_def visit_def upload_and_embed_def ask_def ready_state_def ready_world_def

theorem messages_only_grow_witness:
  "session_state
      (fst (session [(env_ok, upload_and_embed sample_pdf), (env_ok, ask ''hi'')]
              (new_session Map.empty))) ''state''
     = Some \<lparr>temp_pdf_path = Some doc_pdf, chatbot_manager = Some 1,
             messages = [turn ''user'' ''hi'', turn ''assistant'' ''re: hi'']\<rparr>
   \<and> list_all wf_turn [turn ''user'' ''hi'', turn ''assistant'' ''re: hi'']
   \<and> session_state (fst (session [(env_ok, ask ''why'')] ready_world)) ''state''
     = Some (ready_state\<lparr>messages :=
               messages ready_state @ [turn ''user'' ''why'', turn ''assistant'' ''re: why'']\<rparr>)
   \<and> prefix (messages ready_state)
        (messages ready_state @ [turn ''user'' ''why'', turn ''assistant'' ''re: why''])
   \<and> wf_turn [(''role'', ''user''), (''content'', ''why'')]"
proof -
  have a: "session_state
      (fst (session [(env_ok, upload_and_embed sample_pdf), (env_ok, ask ''hi'')]
              (new_session Map.empty))) ''state''
     = Some \<lparr>temp_pdf_path = Some doc_pdf, chatbot_manager = Some 1,
             messages = [turn ''user'' ''hi'', turn ''assistant'' ''re: hi'']\<rparr>"
    by (simp add: run_defs sample_defs doc_pdf_def turn_def)
  have b: "session_state ready_world ''state'' = Some ready_state
      \<and> session_state (fst (session [(env_ok, ask ''why'')] ready_world)) ''state''
     = Some (ready_state\<lparr>messages :=
               messages ready_state @ [turn ''user'' ''why'', turn ''assistant'' ''re: why'']\<rparr>)"
    by (simp add: run_defs sample_defs doc_pdf_def turn_def)
  have c: "\<exists>r c. [(''role'', ''user''), (''content'', ''why'')] = [(''role'', r), (''content'', c)]
      \<and> (r = ''user'' \<or> r = ''assistant'')"
    by simp
  from messages_only_grow
    [of "[(env_ok, upload_and_embed sample_pdf), (env_ok, ask ''hi'')]" Map.empty
        "\<lparr>temp_pdf_path = Some doc_pdf, chatbot_manager = Some 1,
             messages = [turn ''user'' ''hi'', turn ''assistant'' ''re: hi'']\<rparr>"] a
  have "list_all wf_turn
      (messages \<lparr>temp_pdf_path = Some doc_pdf, chatbot_manager = Some 1,
             messages = [turn ''user'' ''hi'', turn ''assistant'' ''re: hi'']\<rparr>)"
    by blast
  then have 1: "list_all wf_turn [turn ''user'' ''hi'', turn ''assistant'' ''re: hi'']"
    by simp
  from messages_only_grow
    [of "[(env_ok, ask ''why'')]" _ _ ready_world ready_state
        "ready_state\<lparr>messages :=
               messages ready_state @ [turn ''user'' ''why'', turn ''assistant'' ''re: why'']\<rparr>"
        "[(''role'', ''user''), (''content'', ''why'')]"] b c
  have "prefix (messages ready_state)
        (messages (ready_state\<lparr>messages :=
               messages ready_state @ [turn ''user'' ''why'', turn ''assistant'' ''re: why'']\<rparr>))"
    and 3: "wf_turn [(''role'', ''user''), (''content'', ''why'')]"
    by blast+
  then have 2: "prefix (messages ready_state)
        (messages ready_state @ [turn ''user'' ''why'', turn ''assistant'' ''re: why''])"
    by simp
  from a b 1 2 3 show ?thesis by blast
qed

subsection \<open>Sending a message\<close>

text \<open>
  C10, as the code has it. When a manager is stored, the stored turns are well formed
  and a non-empty message was typed, the run appends the user's turn; if
  \<open>get_response\<close> returns, or raises an instance of \<open>Exception\<close>, the run then appends
  the assistant's turn, whose content is the answer, or the fixed prefix followed by the
  exception's text, and nothing escapes.
\<close>

theorem message_send_appends_two_turns:
  "chatbot_manager st = Some m \<and> user_input inp = Some q \<and> q \<noteq> []
   \<and> list_all wf_turn (messages st)
   \<and> (\<forall>e. ChatbotManager_get_response en m q = Inl e \<longrightarrow> isinstance_Exception e) \<longrightarrow>
     messages (fst (column3 en inp st)) =
       messages st
         @ [turn ''user'' q,
            turn ''assistant''
              (case ChatbotManager_get_response en m q of
                 Inr answer \<Rightarrow> answer
               | Inl e \<Rightarrow> chat_error_prefix @ exn_text e)]
     \<and> snd (snd (column3 en inp st)) = None"
proof
  assume a: "chatbot_manager st = Some m \<and> user_input inp = Some q \<and> q \<noteq> []
   \<and> list_all wf_turn (messages st)
   \<and> (\<forall>e. ChatbotManager_get_response en m q = Inl e \<longrightarrow> isinstance_Exception e)"
  then have "snd (render_messages (messages st)) = None"
    by (simp add: render_messages_wf)
  with a have c: "column3 en inp st =
     (case send_message en m q st of
        (st', evs', x) \<Rightarrow> (st', Header_chat # fst (render_messages (messages st)) @ evs', x))"
    by (intro column3_send) simp_all
  from a show "messages (fst (column3 en inp st)) =
       messages st
         @ [turn ''user'' q,
            turn ''assistant''
              (case ChatbotManager_get_response en m q of
                 Inr answer \<Rightarrow> answer
               | Inl e \<Rightarrow> chat_error_prefix @ exn_text e)]
     \<and> snd (snd (column3 en inp st)) = None"
    unfolding c by (auto simp: send_message_def Let_def split: sum.splits)
qed

theorem message_send_appends_two_turns_witness:
  "messages (fst (column3 (env_raising timeout_error) (ask ''why'') ready_state)) =
     messages ready_state
       @ [turn ''user'' ''why'', turn ''assistant'' (chat_error_prefix @ ''timed out'')]
   \<and> messages (fst (column3 env_ok (ask ''why'') ready_state)) =
     messages ready_state @ [turn ''user'' ''why'', turn ''assistant'' ''re: why'']"
proof -
  have h: "chatbot_manager ready_state = Some 1 \<and> user_input (ask ''why'') = Some ''why''
      \<and> ''why'' \<noteq> [] \<and> list_all wf_turn (messages ready_state)"
    by (simp add: ready_state_def ask_def wf_turn_turn)
  have 1: "\<forall>e. ChatbotManager_get_response (env_raising timeout_error) 1 ''why'' = Inl e
      \<longrightarrow> isinstance_Exception e"
    by (simp add: env_raising_def timeout_error_def isinstance_Exception_def)
  have 2: "\<forall>e. ChatbotManager_get_response env_ok 1 ''why'' = Inl e
      \<longrightarrow> isinstance_Exception e"
    by (simp add: env_ok_def)
  from message_send_appends_two_turns
    [of ready_state 1 "ask ''why''" "''why''" "env_raising timeout_error"] h 1
  have a: "messages (fst (column3 (env_raising timeout_error) (ask ''why'') ready_state)) =
     messages ready_state
       @ [turn ''user'' ''why'', turn ''assistant'' (chat_error_prefix @ ''timed out'')]"
    by (simp add: env_raising_def timeout_error_def)
  from message_send_appends_two_turns
    [of ready_state 1 "ask ''why''" "''why''" env_ok] h 2
  have b: "messages (fst (column3 env_ok (ask ''why'') ready_state)) =
     messages ready_state @ [turn ''user'' ''why'', turn ''assistant'' ''re: why'']"
    by (simp add: env_ok_def)
  from a b show ?thesis by blast
qed

text \<open>
  When \<open>get_response\<close> raises an exception that is not an instance of \<open>Exception\<close>, the
  handler of line 178 does not catch it: the user's turn is stored, no assistant's turn
  follows it, and the exception ends the run.
\<close>

theorem message_send_uncaught_exit:
  "messages (fst (column3 (env_raising system_exit) (ask ''why'') ready_state)) =
     [turn ''user'' ''hi'', turn ''assistant'' ''hello'', turn ''user'' ''why'']
   \<and> snd (snd (column3 (env_raising system_exit) (ask ''why'') ready_state))
       = Some system_exit"
  by (simp add: column3_def send_message_def Let_def isinstance_Exception_def
      sample_defs turn_def)

subsection \<open>Upload before embeddings before chat\<close>

lemma uploaded_in_append: "uploaded_in (xs @ ys) = (uploaded_in xs \<or> uploaded_in ys)"
  by (induction xs rule: uploaded_in.induct) simp_all

lemma embedded_in_append: "embedded_in (xs @ ys) = (embedded_in xs \<or> embedded_in ys)"
  by (induction xs rule: embedded_in.induct) simp_all

lemma gated_append:
  "gated up emb (xs @ ys) =
     (gated up emb xs \<and> gated (up \<or> uploaded_in xs) (emb \<or> embedded_in xs) ys)"
  by (induction up emb xs rule: gated.induct) auto

lemma render_messages_gated:
  "gated up emb (fst (render_messages ms))
   \<and> \<not> uploaded_in (fst (render_messages ms)) \<and> \<not> embedded_in (fst (render_messages ms))"
  by (induction ms) (auto split: option.splits prod.splits)

text \<open>
  The flags \<open>up\<close> and \<open>emb\<close> cover a state when a stored path implies \<open>up\<close> and a stored
  manager implies \<open>emb\<close>.
\<close>

lemma column1_gated:
  assumes "column1 inp st fs = (st', fs', evs)"
    and "temp_pdf_path st \<noteq> None \<longrightarrow> up"
  shows "gated up emb evs \<and> \<not> embedded_in evs
     \<and> (temp_pdf_path st' \<noteq> None \<longrightarrow> up \<or> uploaded_in evs)"
  using assms by (auto simp: column1_def split: option.splits)

lemma column2_gated:
  assumes "column2 en inp st = (st', evs, x)"
    and "temp_pdf_path st \<noteq> None \<longrightarrow> up"
    and "chatbot_manager st \<noteq> None \<longrightarrow> emb"
  shows "gated up emb evs \<and> \<not> uploaded_in evs
     \<and> (chatbot_manager st' \<noteq> None \<longrightarrow> emb \<or> embedded_in evs)"
  using assms
  by (auto simp: column2_def create_embeddings_try_def create_embeddings_except_def
      split: option.splits sum.splits if_splits)

lemma column3_gated:
  assumes "column3 en inp st = (st', evs, x)"
    and "chatbot_manager st \<noteq> None \<longrightarrow> emb"
  shows "gated up emb evs \<and> \<not> uploaded_in evs \<and> \<not> embedded_in evs"
proof -
  obtain evs0 x0 where r: "render_messages (messages st) = (evs0, x0)"
    by (cases "render_messages (messages st)") auto
  with render_messages_gated[of up emb "messages st"]
  have g: "gated up emb evs0" "\<not> uploaded_in evs0" "\<not> embedded_in evs0" by simp_all
  with assms r show ?thesis
    by (auto simp: column3_def send_message_def Let_def gated_append uploaded_in_append
        embedded_in_append split: option.splits sum.splits if_splits)
qed

lemma chatbot_page_gated:
  assumes "chatbot_page en inp st fs = (st', fs', evs, x)"
    and "temp_pdf_path st \<noteq> None \<longrightarrow> up"
    and "chatbot_manager st \<noteq> None \<longrightarrow> emb"
  shows "gated up emb evs
     \<and> (temp_pdf_path st' \<noteq> None \<longrightarrow> up \<or> uploaded_in evs)
     \<and> (chatbot_manager st' \<noteq> None \<longrightarrow> emb \<or> embedded_in evs)"
proof -
  from assms(1) obtain st1 evs1 st2 evs2 x2 evs3 where
    c1: "column1 inp st fs = (st1, fs', evs1)" and
    c2: "column2 en inp st1 = (st2, evs2, x2)" and
    c3: "(x2 \<noteq> None \<and> st' = st2 \<and> evs3 = [] \<and> x = x2)
       \<or> (x2 = None \<and> column3 en inp st2 = (st', evs3, x))" and
    evs: "evs = Title_chatbot # evs1 @ evs2 @ evs3"
    by (rule chatbot_page_cases)
  from column1_gated[OF c1 assms(2), of emb] column1_frame[OF c1] assms(3)
  have g1: "gated up emb evs1" "\<not> embedded_in evs1"
    "temp_pdf_path st1 \<noteq> None \<longrightarrow> up \<or> uploaded_in evs1"
    "chatbot_manager st1 \<noteq> None \<longrightarrow> emb"
    by simp_all
  from column2_gated[OF c2 g1(3) g1(4)] column2_frame[OF c2] g1(3)
  have g2: "gated (up \<or> uploaded_in evs1) emb evs2" "\<not> uploaded_in evs2"
    "chatbot_manager st2 \<noteq> None \<longrightarrow> emb \<or> embedded_in evs2"
    "temp_pdf_path st2 \<noteq> None \<longrightarrow> up \<or> uploaded_in evs1"
    by simp_all
  from c3 have g3: "gated (up \<or> uploaded_in evs1) (emb \<or> embedded_in evs2) evs3
      \<and> \<not> uploaded_in evs3 \<and> \<not> embedded_in evs3
      \<and> temp_pdf_path st' = temp_pdf_path st2 \<and> chatbot_manager st' = chatbot_manager st2"
  proof
    assume "x2 \<noteq> None \<and> st' = st2 \<and> evs3 = [] \<and> x = x2"
    then show ?thesis by simp
  next
    assume a: "x2 = None \<and> column3 en inp st2 = (st', evs3, x)"
    with column3_gated[of en inp st2 st' evs3 x "emb \<or> embedded_in evs2"
        "up \<or> uploaded_in evs1"] g2(3) column3_frame[of en inp st2 st' evs3 x]
    show ?thesis by simp
  qed
  from g1 g2 g3 show ?thesis
    by (simp add: evs gated_append uploaded_in_append embedded_in_append)
qed

lemma script_gated:
  assumes "script en inp w = (w', evs, x)"
    and "\<And>st. session_state w ''state'' = Some st \<Longrightarrow>
           (temp_pdf_path st \<noteq> None \<longrightarrow> up) \<and> (chatbot_manager st \<noteq> None \<longrightarrow> emb)"
  shows "gated up emb evs
     \<and> (\<forall>st. session_state w' ''state'' = Some st \<longrightarrow>
           (temp_pdf_path st \<noteq> None \<longrightarrow> up \<or> uploaded_in evs)
           \<and> (chatbot_manager st \<noteq> None \<longrightarrow> emb \<or> embedded_in evs))"
proof -
  obtain st0 where st0: "init_session_state (session_state w) ''state'' = Some st0"
    using init_session_state_present by blast
  from init_session_state_cases[OF st0] assms(2)
  have c0: "(temp_pdf_path st0 \<noteq> None \<longrightarrow> up) \<and> (chatbot_manager st0 \<noteq> None \<longrightarrow> emb)"
    by (auto simp: empty_state_def)
  show ?thesis
  proof (cases "choice inp = label_chatbot")
    case False
    with assms(1) st0 c0 show ?thesis
      by (auto simp: script_def Let_def split: if_splits)
  next
    case True
    obtain st' fs' evs' x' where
      c: "chatbot_page en inp st0 (files w) = (st', fs', evs', x')"
      by (cases "chatbot_page en inp st0 (files w)") auto
    from chatbot_page_gated[OF c, of up emb] c0
    have g: "gated up emb evs'"
      "temp_pdf_path st' \<noteq> None \<longrightarrow> up \<or> uploaded_in evs'"
      "chatbot_manager st' \<noteq> None \<longrightarrow> emb \<or> embedded_in evs'"
      by simp_all
    from assms(1) True st0 c have "session_state w' ''state'' = Some st'"
      and "evs = Sidebar # evs' @ (if x' = None then [Footer] else [])"
      by (cases x'; simp add: script_def Let_def labels_distinct; fastforce)+
    with g show ?thesis
      by (simp add: gated_append uploaded_in_append embedded_in_append)
  qed
qed

lemma session_gated:
  assumes "\<And>st. session_state w ''state'' = Some st \<Longrightarrow>
           (temp_pdf_path st \<noteq> None \<longrightarrow> up) \<and> (chatbot_manager st \<noteq> None \<longrightarrow> emb)"
  shows "gated up emb (snd (session runs w))"
  using assms
proof (induction runs arbitrary: w up emb)
  case Nil
  then show ?case by simp
next
  case (Cons r runs)
  obtain en inp where r: "r = (en, inp)" by (cases r) auto
  obtain w' evs x where s: "script en inp w = (w', evs, x)"
    by (cases "script en inp w") auto
  from script_gated[OF s, of up emb] Cons.prems
  have g: "gated up emb evs"
    and c: "\<And>st. session_state w' ''state'' = Some st \<Longrightarrow>
           (temp_pdf_path st \<noteq> None \<longrightarrow> up \<or> uploaded_in evs)
           \<and> (chatbot_manager st \<noteq> None \<longrightarrow> emb \<or> embedded_in evs)"
    by blast+
  from Cons.IH[of w' "up \<or> uploaded_in evs" "emb \<or> embedded_in evs"] c
  have "gated (up \<or> uploaded_in evs) (emb \<or> embedded_in evs) (snd (session runs w'))"
    by blast
  with g s show ?case
    by (auto simp: r gated_append split: prod.splits)
qed

text \<open>
  C3. In the trace of every session, a call of \<open>get_response\<close> comes after a call of
  \<open>create_embeddings\<close> that returned, and a call of \<open>create_embeddings\<close> comes after a
  saved upload. In a run with no manager stored the chat column shows the info message
  and makes no call. In a run with the box ticked and no path stored the embeddings
  column shows the warning and makes no call. When the embeddings column turns the
  manager field from \<open>None\<close> into an instance, a path was stored and
  \<open>create_embeddings\<close> returned on it in that run.
\<close>

theorem chat_only_after_embeddings:
  "gated False False (snd (session runs (new_session fs)))
   \<and> (chatbot_manager st = None \<longrightarrow>
        column3 en inp st = (st, [Header_chat, Info_create_embeddings_first], None))
   \<and> (create_embeddings inp \<and> temp_pdf_path st = None \<longrightarrow>
        column2 en inp st = (st, [Header_embeddings, Warning_upload_first], None))
   \<and> (chatbot_manager st = None \<and> chatbot_manager (fst (column2 en inp st)) \<noteq> None \<longrightarrow>
        (\<exists>p result. temp_pdf_path st = Some p
           \<and> EmbeddingsManager_create_embeddings en p = Inr result
           \<and> rendered_results (fst (snd (column2 en inp st))) = [result]))"
proof (intro conjI impI)
  show "gated False False (snd (session runs (new_session fs)))"
    by (rule session_gated) (simp add: new_session_def)
next
  assume "chatbot_manager st = None"
  then show "column3 en inp st = (st, [Header_chat, Info_create_embeddings_first], None)"
    by (simp add: column3_def)
next
  assume "create_embeddings inp \<and> temp_pdf_path st = None"
  then show "column2 en inp st = (st, [Header_embeddings, Warning_upload_first], None)"
    by (simp add: column2_def)
next
  assume "chatbot_manager st = None \<and> chatbot_manager (fst (column2 en inp st)) \<noteq> None"
  then show "\<exists>p result. temp_pdf_path st = Some p
           \<and> EmbeddingsManager_create_embeddings en p = Inr result
           \<and> rendered_results (fst (snd (column2 en inp st))) = [result]"
    by (auto simp: column2_def create_embeddings_try_def create_embeddings_except_def
        split: option.splits sum.splits if_splits)
qed

theorem chat_only_after_embeddings_witness:
  "snd (session [(env_ok, ask ''early''), (env_ok, upload_and_embed sample_pdf),
                 (env_ok, ask ''hi'')] (new_session Map.empty)) =
     [Sidebar, Title_chatbot, Header_upload, Header_embeddings, Header_chat,
      Info_create_embeddings_first, Footer,
      Sidebar, Title_chatbot, Header_upload, Success_uploaded ''a.pdf'' 3,
      Pdf_preview ''abc'', Header_embeddings, Init_EmbeddingsManager,
      Call_create_embeddings ''doc.pdf'', Success ''indexed doc.pdf'', Init_ChatbotManager,
      Header_chat, Footer,
      Sidebar, Title_chatbot, Header_upload, Header_embeddings, Header_chat,
      Chat_message ''user'' ''hi'', Call_get_response 1 ''hi'',
      Chat_message ''assistant'' ''re: hi'', Footer]
   \<and> gated False False
       (snd (session [(env_ok, ask ''early''), (env_ok, upload_and_embed sample_pdf),
                      (env_ok, ask ''hi'')] (new_session Map.empty)))
   \<and> column3 env_ok (ask ''early'') empty_state
       = (empty_state, [Header_chat, Info_create_embeddings_first], None)
   \<and> column2 env_ok (upload_and_embed sample_pdf) empty_state
       = (empty_state, [Header_embeddings, Warning_upload_first], None)
   \<and> rendered_results (fst (snd (column2 env_ok (upload_and_embed sample_pdf)
        (empty_state\<lparr>temp_pdf_path := Some doc_pdf\<rparr>)))) = [''indexed doc.pdf'']"
proof -
  have tr: "snd (session [(env_ok, ask ''early''), (env_ok, upload_and_embed sample_pdf),
                 (env_ok, ask ''hi'')] (new_session Map.empty)) =
     [Sidebar, Title_chatbot, Header_upload, Header_embeddings, Header_chat,
      Info_create_embeddings_first, Footer,
      Sidebar, Title_chatbot, Header_upload, Success_uploaded ''a.pdf'' 3,
      Pdf_preview ''abc'', Header_embeddings, Init_EmbeddingsManager,
      Call_create_embeddings ''doc.pdf'', Success ''indexed doc.pdf'', Init_ChatbotManager,
      Header_chat, Footer,
      Sidebar, Title_chatbot, Header_upload, Header_embeddings, Header_chat,
      Chat_message ''user'' ''hi'', Call_get_response 1 ''hi'',
      Chat_message ''assistant'' ''re: hi'', Footer]"
    by (simp add: run_defs sample_defs doc_pdf_def turn_def)
  have h: "chatbot_manager empty_state = None"
    "create_embeddings (upload_and_embed sample_pdf) \<and> temp_pdf_path empty_state = None"
    by (simp_all add: empty_state_def upload_and_embed_def)
  have k: "chatbot_manager (empty_state\<lparr>temp_pdf_path := Some doc_pdf\<rparr>) = None
     \<and> chatbot_manager (fst (column2 env_ok (upload_and_embed sample_pdf)
          (empty_state\<lparr>temp_pdf_path := Some doc_pdf\<rparr>))) \<noteq> None"
    by (simp add: run_defs sample_defs doc_pdf_def)
  note t = chat_only_after_embeddings
    [of "[(env_ok, ask ''early''), (env_ok, upload_and_embed sample_pdf),
          (env_ok, ask ''hi'')]" Map.empty empty_state env_ok]
  from t[of "ask ''early''"] h(1)
  have 1: "gated False False
       (snd (session [(env_ok, ask ''early''), (env_ok, upload_and_embed sample_pdf),
                      (env_ok, ask ''hi'')] (new_session Map.empty)))"
    and 2: "column3 env_ok (ask ''early'') empty_state
       = (empty_state, [Header_chat, Info_create_embeddings_first], None)"
    by blast+
  from t[of "upload_and_embed sample_pdf"] h(2)
  have 3: "column2 env_ok (upload_and_embed sample_pdf) empty_state
       = (empty_state, [Header_embeddings, Warning_upload_first], None)"
    by blast
  from chat_only_after_embeddings
    [of "[]" Map.empty "empty_state\<lparr>temp_pdf_path := Some doc_pdf\<rparr>" env_ok
        "upload_and_embed sample_pdf"] k
  obtain p result where
    "temp_pdf_path (empty_state\<lparr>temp_pdf_path := Some doc_pdf\<rparr>) = Some p"
    "EmbeddingsManager_create_embeddings env_ok p = Inr result"
    "rendered_results (fst (snd (column2 env_ok (upload_and_embed sample_pdf)
        (empty_state\<lparr>temp_pdf_path := Some doc_pdf\<rparr>)))) = [result]"
    by blast
  then have 4: "rendered_results (fst (snd (column2 env_ok (upload_and_embed sample_pdf)
        (empty_state\<lparr>temp_pdf_path := Some doc_pdf\<rparr>)))) = [''indexed doc.pdf'']"
    by (simp add: env_ok_def doc_pdf_def)
  from tr 1 2 3 4 show ?thesis by blast
qed

end
